theory Spec2Isabelle
  imports Main "HOL-Library.AList"
begin

section \<open>Data model\<close>

text \<open>
  The wrappers of this repository call a backend service through its client SDK. The
  model keeps the values the wrappers handle and logs every request they issue.

  A JavaScript value stored in a record. The wrappers never look inside a value; the
  only test made on one is \<open>!== undefined\<close>. Numbers are carried as they are.
\<close>

datatype jsval = JUndefined | JNull | JBool bool | JNum int | JStr string

text \<open>
  A plain object with string keys, in insertion order. \<open>map_of\<close> reads a property,
  \<open>AList.update\<close> is the assignment \<open>obj[k] = v\<close>: it overwrites in place or appends.
\<close>

type_synonym obj = "(string \<times> jsval) list"

record File =
  file_name :: string
  file_type :: string
  file_size :: nat

record user =
  user_id :: string
  user_email :: string
  user_name :: string
  user_verified :: bool

record submission =
  sub_id :: string
  sub_type :: string
  sub_data :: obj
  sub_mosque_id :: "string option"
  sub_image :: "string option"
  sub_status :: string
  sub_submitted_by :: string

record collection =
  coll_id :: string
  listRule :: "string option"
  viewRule :: "string option"
  createRule :: "string option"
  updateRule :: "string option"
  deleteRule :: "string option"

text \<open>
  A thrown value: \<open>new Error(msg)\<close> raised by the wrappers themselves, or whatever the
  SDK rejects with.
\<close>

datatype error = Error string | ClientResponseError string

fun message :: "error \<Rightarrow> string" where
  "message (Error m) = m"
| "message (ClientResponseError m) = m"

text \<open>
  The requests that leave the process. \<open>GetList\<close> carries collection, page, page
  size, filter and sort; \<open>GetImageFile\<close> is \<open>getImageFileFromRecord\<close>; the two
  \<open>Mosque\<close> calls are \<open>mosquesApi.create\<close> and \<open>mosquesApi.update\<close>.
\<close>

datatype call =
    GetList string nat nat string string
  | GetOne string string
  | Update string string obj
  | AuthWithPassword string string string
  | GetImageFile submission string string
  | MosqueCreate obj "File option"
  | MosqueUpdate string obj "File option"
  | AdminAuth string string
  | CollectionsGetOne string
  | CollectionsUpdate string obj

text \<open>
  The client object \<open>pb\<close>: the requests issued so far, oldest first, and the session
  held in \<open>pb.authStore.model\<close>.
\<close>

record state =
  trace :: "call list"
  authModel :: "user option"

text \<open>
  Everything the wrappers import but do not define. The validators of
  \<open>../validation\<close> and \<open>../pocketbase-images\<close> are parameters. Each answer of
  the service may depend on all requests issued before it. \<open>now\<close> is
  \<open>new Date().toISOString()\<close>.
\<close>

record env =
  validateRecordId :: "string \<Rightarrow> bool"
  validateImageFile :: "File \<Rightarrow> string option"
  getImageFileFromRecord :: "call list \<Rightarrow> submission \<Rightarrow> string \<Rightarrow> string \<Rightarrow> error + File option"
  mosquesApi_create :: "call list \<Rightarrow> obj \<Rightarrow> File option \<Rightarrow> error + unit"
  mosquesApi_update :: "call list \<Rightarrow> string \<Rightarrow> obj \<Rightarrow> File option \<Rightarrow> error + unit"
  submissions_getList :: "call list \<Rightarrow> nat \<Rightarrow> nat \<Rightarrow> string \<Rightarrow> string \<Rightarrow> error + submission list"
  submissions_getOne :: "call list \<Rightarrow> string \<Rightarrow> error + submission"
  submissions_update :: "call list \<Rightarrow> string \<Rightarrow> obj \<Rightarrow> error + submission"
  users_getOne :: "call list \<Rightarrow> string \<Rightarrow> error + user"
  users_update :: "call list \<Rightarrow> string \<Rightarrow> obj \<Rightarrow> error + user"
  users_authWithPassword :: "call list \<Rightarrow> string \<Rightarrow> string \<Rightarrow> error + user"
  now :: "call list \<Rightarrow> string"

section \<open>Effects\<close>

text \<open>
  An asynchronous operation takes the client state and returns either the thrown error
  or its value, together with the state it leaves behind.
\<close>

type_synonym 'a prog = "state \<Rightarrow> (error + 'a) \<times> state"

definition throw :: "error \<Rightarrow> 'a prog" where
  "throw e s = (Inl e, s)"

text \<open>\<open>await\<close> of a request: the request is logged, the service answers.\<close>

definition request :: "call \<Rightarrow> (call list \<Rightarrow> error + 'a) \<Rightarrow> 'a prog" where
  "request c answer s = (answer (trace s), s\<lparr>trace := trace s @ [c]\<rparr>)"

text \<open>The requests a run started in \<open>s\<close> has added to the log.\<close>

definition calls_of :: "(state \<Rightarrow> 'a \<times> state) \<Rightarrow> state \<Rightarrow> call list" where
  "calls_of p s = drop (length (trace s)) (trace (snd (p s)))"

text \<open>JavaScript truthiness of an optional string: defined and not empty.\<close>

fun truthy :: "string option \<Rightarrow> bool" where
  "truthy None = False"
| "truthy (Some s) = (s \<noteq> [])"

section \<open>The submissions API\<close>

text \<open>
  Modelled from the spec: \<open>validateSubmissionStatus\<close> lives in \<open>../validation\<close>,
  which is not among the sources. The spec gives its allow-list: status values outside
  pending, approved, rejected are rejected.
\<close>

definition validateSubmissionStatus :: "string \<Rightarrow> bool" where
  "validateSubmissionStatus st = (st \<in> set [''pending'', ''approved'', ''rejected''])"

text \<open>
  The query both listings end with: page 1, 100 per page, newest first.
\<close>

definition getList_submissions :: "env \<Rightarrow> string \<Rightarrow> submission list prog" where
  "getList_submissions E fltr =
     request (GetList ''submissions'' 1 100 fltr ''-submitted_at'')
       (\<lambda>h. submissions_getList E h 1 100 fltr ''-submitted_at'')"

text \<open>
  The optional parameter \<open>status\<close> is \<open>None\<close> when omitted. The test
  \<open>if (status)\<close> is false for the empty string as well.
\<close>

definition submissionsApi_list :: "env \<Rightarrow> string option \<Rightarrow> submission list prog" where
  \<open>submissionsApi_list E status s =
     (case status of
        None \<Rightarrow> getList_submissions E '''' s
      | Some st \<Rightarrow>
          if st \<noteq> '''' then
            if \<not> validateSubmissionStatus st
            then throw (Error ''Invalid status parameter'') s
            else getList_submissions E (''status = "'' @ st @ ''"'') s
          else getList_submissions E '''' s)\<close>

definition submissionsApi_listMySubmissions :: "env \<Rightarrow> string option \<Rightarrow> submission list prog" where
  \<open>submissionsApi_listMySubmissions E status s =
     (case authModel s of
        None \<Rightarrow> throw (Error ''User not authenticated'') s
      | Some model \<Rightarrow>
          (let fltr = ''submitted_by = "'' @ user_id model @ ''"'' in
           (case status of
              None \<Rightarrow> getList_submissions E fltr s
            | Some st \<Rightarrow>
                if st \<noteq> '''' then
                  if \<not> validateSubmissionStatus st
                  then throw (Error ''Invalid status parameter'') s
                  else getList_submissions E (fltr @ '' && status = "'' @ st @ ''"'') s
                else getList_submissions E fltr s)))\<close>

definition submissionsApi_get :: "env \<Rightarrow> string \<Rightarrow> submission prog" where
  "submissionsApi_get E ident s =
     (if \<not> validateRecordId E ident
      then throw (Error ''Invalid submission ID format'') s
      else request (GetOne ''submissions'' ident) (\<lambda>h. submissions_getOne E h ident) s)"

definition submissionsApi_update :: "env \<Rightarrow> string \<Rightarrow> obj \<Rightarrow> submission prog" where
  "submissionsApi_update E ident data =
     request (Update ''submissions'' ident data) (\<lambda>h. submissions_update E h ident data)"

subsection \<open>Approval\<close>

definition ALLOWED_MOSQUE_FIELDS :: "string list" where
  "ALLOWED_MOSQUE_FIELDS =
     [''name'', ''name_bm'', ''address'', ''state'', ''lat'', ''lng'',
      ''description'', ''description_bm'', ''status'']"

text \<open>
  The loop over the allow-list: a field is copied when it is \<open>in\<close> the submitted data
  and its value is not \<open>undefined\<close>.
\<close>

fun copy_allowed :: "string list \<Rightarrow> obj \<Rightarrow> obj \<Rightarrow> obj" where
  "copy_allowed [] data sanitized = sanitized"
| "copy_allowed (field # rest) data sanitized =
     copy_allowed rest data
       (case map_of data field of
          None \<Rightarrow> sanitized
        | Some v \<Rightarrow> if v \<noteq> JUndefined then AList.update field v sanitized else sanitized)"

text \<open>
  \<open>sanitizedData\<close> as it stands when the mosque call is made: the copied fields and,
  for a new mosque, the two assignments that follow the loop.
\<close>

definition sanitizedData :: "submission \<Rightarrow> obj" where
  "sanitizedData submission =
     (let copied = copy_allowed ALLOWED_MOSQUE_FIELDS (sub_data submission) []
      in if sub_type submission = ''new_mosque''
         then AList.update ''created_by'' (JStr (sub_submitted_by submission))
                (AList.update ''status'' (JStr ''approved'') copied)
         else copied)"

text \<open>
  The image step. Whatever is thrown inside the \<open>try\<close> is caught and dropped; a file
  is kept only when \<open>validateImageFile\<close> returns nothing truthy. Console output is
  not part of the model.
\<close>

definition approve_image :: "env \<Rightarrow> submission \<Rightarrow> state \<Rightarrow> File option \<times> state" where
  "approve_image E submission s =
     (case sub_image submission of
        None \<Rightarrow> (None, s)
      | Some img \<Rightarrow>
          if img \<noteq> '''' then
            (case request (GetImageFile submission img ''submissions'')
                    (\<lambda>h. getImageFileFromRecord E h submission img ''submissions'') s of
               (Inl err, s') \<Rightarrow> (None, s')
             | (Inr None, s') \<Rightarrow> (None, s')
             | (Inr (Some fetched), s') \<Rightarrow>
                 (if \<not> truthy (validateImageFile E fetched) then Some fetched else None, s'))
          else (None, s))"

text \<open>The mosque step: create, update, or neither.\<close>

definition approve_mosque :: "env \<Rightarrow> submission \<Rightarrow> File option \<Rightarrow> unit prog" where
  "approve_mosque E submission imageFile s =
     (if sub_type submission = ''new_mosque'' then
        request (MosqueCreate (sanitizedData submission) imageFile)
          (\<lambda>h. mosquesApi_create E h (sanitizedData submission) imageFile) s
      else if sub_type submission = ''edit_mosque'' \<and> truthy (sub_mosque_id submission) then
        (case sub_mosque_id submission of
           None \<Rightarrow> (Inr (), s)
         | Some mosque_id \<Rightarrow>
             if \<not> validateRecordId E mosque_id
             then throw (Error ''Invalid mosque ID format'') s
             else request (MosqueUpdate mosque_id (sanitizedData submission) imageFile)
                    (\<lambda>h. mosquesApi_update E h mosque_id (sanitizedData submission) imageFile) s)
      else (Inr (), s))"

definition approved_fields :: "string \<Rightarrow> string \<Rightarrow> obj" where
  "approved_fields reviewedBy timestamp =
     [(''status'', JStr ''approved''), (''reviewed_by'', JStr reviewedBy),
      (''reviewed_at'', JStr timestamp)]"

definition submissionsApi_approve :: "env \<Rightarrow> string \<Rightarrow> string \<Rightarrow> submission prog" where
  "submissionsApi_approve E ident reviewedBy s =
     (case submissionsApi_get E ident s of
        (Inl err, s1) \<Rightarrow> (Inl err, s1)
      | (Inr submission, s1) \<Rightarrow>
          (case approve_image E submission s1 of
             (imageFile, s2) \<Rightarrow>
               (case approve_mosque E submission imageFile s2 of
                  (Inl err, s3) \<Rightarrow> (Inl err, s3)
                | (Inr _, s3) \<Rightarrow>
                    submissionsApi_update E ident
                      (approved_fields reviewedBy (now E (trace s3))) s3)))"

text \<open>
  The requests each of the two middle steps adds to the log: the image step fetches
  when the submission names an image; the mosque step sends one create or one update,
  or nothing.
\<close>

definition image_calls :: "submission \<Rightarrow> call list" where
  "image_calls submission =
     (case sub_image submission of
        None \<Rightarrow> []
      | Some img \<Rightarrow> if img \<noteq> '''' then [GetImageFile submission img ''submissions''] else [])"

definition mosque_calls :: "env \<Rightarrow> submission \<Rightarrow> File option \<Rightarrow> call list" where
  "mosque_calls E submission imageFile =
     (if sub_type submission = ''new_mosque''
      then [MosqueCreate (sanitizedData submission) imageFile]
      else case sub_mosque_id submission of
        None \<Rightarrow> []
      | Some mosque_id \<Rightarrow>
          if sub_type submission = ''edit_mosque'' \<and> mosque_id \<noteq> '''' \<and>
             validateRecordId E mosque_id
          then [MosqueUpdate mosque_id (sanitizedData submission) imageFile] else [])"

section \<open>The users API\<close>

definition usersApi_get :: "env \<Rightarrow> string \<Rightarrow> user prog" where
  "usersApi_get E ident = request (GetOne ''users'' ident) (\<lambda>h. users_getOne E h ident)"

definition usersApi_update :: "env \<Rightarrow> string \<Rightarrow> obj \<Rightarrow> user prog" where
  "usersApi_update E ident data =
     request (Update ''users'' ident data) (\<lambda>h. users_update E h ident data)"

text \<open>
  The SDK's \<open>authWithPassword\<close>: on success the returned record becomes the session;
  on failure the session is left as it was.
\<close>

definition authWithPassword :: "env \<Rightarrow> string \<Rightarrow> string \<Rightarrow> user prog" where
  "authWithPassword E email password s =
     (case request (AuthWithPassword ''users'' email password)
             (\<lambda>h. users_authWithPassword E h email password) s of
        (Inl err, s') \<Rightarrow> (Inl err, s')
      | (Inr u, s') \<Rightarrow> (Inr u, s'\<lparr>authModel := Some u\<rparr>))"

definition password_fields :: "string \<Rightarrow> string \<Rightarrow> obj" where
  "password_fields newPassword passwordConfirm =
     [(''password'', JStr newPassword), (''passwordConfirm'', JStr passwordConfirm)]"

definition usersApi_updatePassword :: "env \<Rightarrow> string \<Rightarrow> string \<Rightarrow> string \<Rightarrow> unit prog" where
  "usersApi_updatePassword E oldPassword newPassword passwordConfirm s =
     (case authModel s of
        None \<Rightarrow> throw (Error ''User not authenticated'') s
      | Some model \<Rightarrow>
          (case authWithPassword E (user_email model) oldPassword s of
             (Inl err, s1) \<Rightarrow> (Inl (Error ''Current password is incorrect''), s1)
           | (Inr _, s1) \<Rightarrow>
               (case authModel s1 of
                  None \<Rightarrow> throw (Error ''Cannot read properties of null'') s1
                | Some model' \<Rightarrow>
                    (case usersApi_update E (user_id model')
                            (password_fields newPassword passwordConfirm) s1 of
                       (Inl err, s2) \<Rightarrow> (Inl err, s2)
                     | (Inr _, s2) \<Rightarrow> (Inr (), s2)))))"

section \<open>The permission-fix script\<close>

text \<open>
  What the script reads from its process: the four environment variables, the lines
  typed at the terminal, and the admin API of the service. \<open>question\<close> gives the
  answer to a prompt, or \<open>None\<close> when the input ends with the prompt unanswered: the
  promise that \<open>question\<close> returns then never settles.
\<close>

record script_env =
  VITE_POCKETBASE_URL :: "string option"
  POCKETBASE_URL :: "string option"
  POCKETBASE_ADMIN_EMAIL :: "string option"
  POCKETBASE_ADMIN_PASSWORD :: "string option"
  question :: "string \<Rightarrow> string option"
  admins_authWithPassword :: "call list \<Rightarrow> string \<Rightarrow> string \<Rightarrow> error + unit"
  collections_getOne :: "call list \<Rightarrow> string \<Rightarrow> error + collection"
  collections_update :: "call list \<Rightarrow> string \<Rightarrow> obj \<Rightarrow> error + unit"

text \<open>
  How a run ends: \<open>process.exit(n)\<close>; or \<open>main\<close> returns without it; or \<open>main\<close>
  is left waiting on a prompt that is never answered, and the process ends once nothing
  is left to run. A process that ends without \<open>process.exit\<close> ends with status 0.
\<close>

datatype outcome = Exited nat | Returned | Unsettled

fun exit_status :: "outcome \<Rightarrow> nat" where
  "exit_status (Exited n) = n"
| "exit_status Returned = 0"
| "exit_status Unsettled = 0"

record fix_result =
  success :: bool
  failure :: "string option"

text \<open>\<open>a || b\<close> on optional strings.\<close>

definition js_or :: "string option \<Rightarrow> string option \<Rightarrow> string option" where
  "js_or a b = (if truthy a then a else b)"

text \<open>
  \<open>authenticate\<close> resolves to a boolean, or (\<open>None\<close>) never resolves because one of
  its two prompts stays unanswered. No request is sent while a prompt waits.
\<close>

definition prompt_authenticate :: "script_env \<Rightarrow> state \<Rightarrow> bool option \<times> state" where
  "prompt_authenticate P s =
     (case question P ''Email: '' of
        None \<Rightarrow> (None, s)
      | Some email \<Rightarrow>
          (case question P ''Password: '' of
             None \<Rightarrow> (None, s)
           | Some password \<Rightarrow>
               (case request (AdminAuth email password)
                       (\<lambda>h. admins_authWithPassword P h email password) s of
                  (Inr _, s') \<Rightarrow> (Some True, s')
                | (Inl err, s') \<Rightarrow> (Some False, s'))))"

definition authenticate :: "script_env \<Rightarrow> state \<Rightarrow> bool option \<times> state" where
  "authenticate P s =
     (case (POCKETBASE_ADMIN_EMAIL P, POCKETBASE_ADMIN_PASSWORD P) of
        (Some adminEmail, Some adminPassword) \<Rightarrow>
          if adminEmail \<noteq> '''' \<and> adminPassword \<noteq> '''' then
            (case request (AdminAuth adminEmail adminPassword)
                    (\<lambda>h. admins_authWithPassword P h adminEmail adminPassword) s of
               (Inr _, s') \<Rightarrow> (Some True, s')
             | (Inl err, s') \<Rightarrow> prompt_authenticate P s')
          else prompt_authenticate P s
      | _ \<Rightarrow> prompt_authenticate P s)"

definition createRule_patch :: obj where
  \<open>createRule_patch = [(''createRule'', JStr ''@request.auth.id != ""'')]\<close>

definition fixAuditLogsPermissions :: "script_env \<Rightarrow> state \<Rightarrow> fix_result \<times> state" where
  "fixAuditLogsPermissions P s =
     (case request (CollectionsGetOne ''audit_logs'')
             (\<lambda>h. collections_getOne P h ''audit_logs'') s of
        (Inl err, s1) \<Rightarrow> (\<lparr>success = False, failure = Some (message err)\<rparr>, s1)
      | (Inr collection, s1) \<Rightarrow>
          (case request (CollectionsUpdate (coll_id collection) createRule_patch)
                  (\<lambda>h. collections_update P h (coll_id collection) createRule_patch) s1 of
             (Inl err, s2) \<Rightarrow> (\<lparr>success = False, failure = Some (message err)\<rparr>, s2)
           | (Inr _, s2) \<Rightarrow> (\<lparr>success = True, failure = None\<rparr>, s2)))"

definition main :: "script_env \<Rightarrow> state \<Rightarrow> outcome \<times> state" where
  "main P s =
     (case authenticate P s of
        (None, s1) \<Rightarrow> (Unsettled, s1)
      | (Some authSuccess, s1) \<Rightarrow>
          if \<not> authSuccess then (Exited 1, s1)
          else
            (case fixAuditLogsPermissions P s1 of
               (result, s2) \<Rightarrow>
                 if success result then (Returned, s2) else (Exited 1, s2)))"

text \<open>
  The module top level: without a URL the process exits before \<open>main\<close> is called.
  Nothing in \<open>main\<close> throws, so the handler attached to it has nothing to catch.
\<close>

definition script :: "script_env \<Rightarrow> state \<Rightarrow> outcome \<times> state" where
  "script P s =
     (if \<not> truthy (js_or (VITE_POCKETBASE_URL P) (POCKETBASE_URL P))
      then (Exited 1, s)
      else main P s)"

section \<open>A concrete service\<close>

text \<open>
  A small service on which the operations can be run: record IDs are 15 characters
  long, images above five million bytes are refused, every request succeeds.
\<close>

definition sample_user :: user where
  "sample_user =
     \<lparr>user_id = ''usr000000000001'', user_email = ''aminah@example.org'',
      user_name = ''Aminah'', user_verified = True\<rparr>"

definition sample_submission :: submission where
  "sample_submission =
     \<lparr>sub_id = ''sub000000000001'', sub_type = ''new_mosque'',
      sub_data = [(''name'', JStr ''Masjid Jamek''), (''lat'', JNum 3),
                  (''created_by'', JStr ''mallory''), (''featured'', JBool True)],
      sub_mosque_id = None, sub_image = None, sub_status = ''pending'',
      sub_submitted_by = ''usr000000000001''\<rparr>"

definition sample_file :: File where
  "sample_file = \<lparr>file_name = ''front.jpg'', file_type = ''image/jpeg'', file_size = 120000\<rparr>"

definition sample_env :: env where
  "sample_env =
     \<lparr>validateRecordId = (\<lambda>i. length i = 15),
      validateImageFile = (\<lambda>f. if file_size f \<le> 5000000 then None else Some ''File too large''),
      getImageFileFromRecord = (\<lambda>h r n c. Inr (Some sample_file)),
      mosquesApi_create = (\<lambda>h d i. Inr ()),
      mosquesApi_update = (\<lambda>h m d i. Inr ()),
      submissions_getList = (\<lambda>h p n f srt. Inr []),
      submissions_getOne = (\<lambda>h i. Inr (sample_submission\<lparr>sub_id := i\<rparr>)),
      submissions_update = (\<lambda>h i d. Inr (sample_submission\<lparr>sub_id := i, sub_status := ''approved''\<rparr>)),
      users_getOne = (\<lambda>h i. Inr (sample_user\<lparr>user_id := i\<rparr>)),
      users_update = (\<lambda>h i d. Inr (sample_user\<lparr>user_id := i\<rparr>)),
      users_authWithPassword =
        (\<lambda>h e p. if p = ''correct horse'' then Inr sample_user
                 else Inl (ClientResponseError ''Failed to authenticate.'')),
      now = (\<lambda>h. ''2025-01-01T00:00:00.000Z'')\<rparr>"

definition signed_out :: state where
  "signed_out = \<lparr>trace = [], authModel = None\<rparr>"

definition signed_in :: state where
  "signed_in = \<lparr>trace = [], authModel = Some sample_user\<rparr>"

definition sample_collection :: collection where
  "sample_collection =
     \<lparr>coll_id = ''col000000000001'', listRule = None, viewRule = None,
      createRule = None, updateRule = None, deleteRule = None\<rparr>"

definition sample_script_env :: script_env where
  "sample_script_env =
     \<lparr>VITE_POCKETBASE_URL = Some ''http://127.0.0.1:8090'',
      POCKETBASE_URL = None,
      POCKETBASE_ADMIN_EMAIL = Some ''admin@example.org'',
      POCKETBASE_ADMIN_PASSWORD = Some ''s3cret'',
      question = (\<lambda>q. if q = ''Email: '' then Some ''admin@example.org'' else Some ''typed''),
      admins_authWithPassword =
        (\<lambda>h e p. if e = ''admin@example.org'' \<and> p = ''s3cret'' then Inr ()
                 else Inl (ClientResponseError ''Failed to authenticate.'')),
      collections_getOne = (\<lambda>h n. Inr sample_collection),
      collections_update = (\<lambda>h i d. Inr ())\<rparr>"

text \<open>
  Variations: the stored image can no longer be fetched; an edit that names no mosque,
  without and with an image; an edit whose mosque reference is malformed; a service
  that refuses to create mosques.
\<close>

definition lost_image_submission :: submission where
  "lost_image_submission = sample_submission\<lparr>sub_image := Some ''front.jpg''\<rparr>"

definition lost_image_env :: env where
  "lost_image_env =
     sample_env
       \<lparr>getImageFileFromRecord := (\<lambda>h r n c. Inl (ClientResponseError ''File not found.'')),
        submissions_getOne := (\<lambda>h i. Inr lost_image_submission)\<rparr>"

definition orphan_edit :: submission where
  "orphan_edit = sample_submission\<lparr>sub_type := ''edit_mosque''\<rparr>"

definition orphan_edit_env :: env where
  "orphan_edit_env = sample_env\<lparr>submissions_getOne := (\<lambda>h i. Inr orphan_edit)\<rparr>"

definition orphan_edit_image :: submission where
  "orphan_edit_image = orphan_edit\<lparr>sub_image := Some ''front.jpg''\<rparr>"

definition orphan_edit_image_env :: env where
  "orphan_edit_image_env =
     lost_image_env\<lparr>submissions_getOne := (\<lambda>h i. Inr orphan_edit_image)\<rparr>"

definition bad_target_edit :: submission where
  "bad_target_edit =
     sample_submission\<lparr>sub_type := ''edit_mosque'', sub_mosque_id := Some ''../users''\<rparr>"

definition bad_target_env :: env where
  "bad_target_env = sample_env\<lparr>submissions_getOne := (\<lambda>h i. Inr bad_target_edit)\<rparr>"

definition refusing_env :: env where
  "refusing_env =
     sample_env\<lparr>mosquesApi_create := (\<lambda>h d i. Inl (ClientResponseError ''Failed to create record.''))\<rparr>"

text \<open>
  Script runs: no URL configured; credentials the service rejects; rejected environment
  credentials with the terminal input at its end; a service that refuses the collection
  update.
\<close>

definition no_url_script_env :: script_env where
  "no_url_script_env = sample_script_env\<lparr>VITE_POCKETBASE_URL := None\<rparr>"

definition rejected_script_env :: script_env where
  "rejected_script_env = sample_script_env\<lparr>POCKETBASE_ADMIN_PASSWORD := Some ''wrong''\<rparr>"

definition unanswered_script_env :: script_env where
  "unanswered_script_env = rejected_script_env\<lparr>question := (\<lambda>q. None)\<rparr>"

definition refused_update_script_env :: script_env where
  "refused_update_script_env =
     sample_script_env
       \<lparr>collections_update := (\<lambda>h i d. Inl (ClientResponseError ''Failed to update collection.''))\<rparr>"

section \<open>Basic facts\<close>

lemma calls_of_request [simp]: "calls_of (request c a) s = [c]"
  by (simp add: calls_of_def request_def)

lemma request_eq: "request c a s = (a (trace s), s\<lparr>trace := trace s @ [c]\<rparr>)"
  by (simp add: request_def)

lemma get_ok:
  "validateRecordId E ident \<Longrightarrow>
   submissionsApi_get E ident s =
     (submissions_getOne E (trace s) ident, s\<lparr>trace := trace s @ [GetOne ''submissions'' ident]\<rparr>)"
  by (simp add: submissionsApi_get_def request_def)

lemma get_invalid:
  "\<not> validateRecordId E ident \<Longrightarrow>
   submissionsApi_get E ident s = (Inl (Error ''Invalid submission ID format''), s)"
  by (simp add: submissionsApi_get_def throw_def)

lemma approve_image_state:
  "snd (approve_image E sub s) = s\<lparr>trace := trace s @ image_calls sub\<rparr>"
  by (simp add: approve_image_def image_calls_def request_def
      split: option.splits sum.splits prod.splits)

lemma approve_image_validated:
  "fst (approve_image E sub s) = Some f \<Longrightarrow>
   truthy (sub_image sub) \<and> \<not> truthy (validateImageFile E f)"
  by (auto simp: approve_image_def request_def
      split: option.splits sum.splits prod.splits if_splits)

lemma approve_mosque_state:
  "snd (approve_mosque E sub img s) = s\<lparr>trace := trace s @ mosque_calls E sub img\<rparr>"
  by (simp add: approve_mosque_def mosque_calls_def request_def throw_def
      split: option.splits)

lemma approve_unfold:
  assumes "validateRecordId E ident" and "submissions_getOne E (trace s) ident = Inr sub"
    and "approve_image E sub (s\<lparr>trace := trace s @ [GetOne ''submissions'' ident]\<rparr>) = (img, s2)"
  shows "submissionsApi_approve E ident rb s =
     (case approve_mosque E sub img s2 of
        (Inl err, s3) \<Rightarrow> (Inl err, s3)
      | (Inr u, s3) \<Rightarrow>
          submissionsApi_update E ident (approved_fields rb (now E (trace s3))) s3)"
  using assms by (simp add: submissionsApi_approve_def get_ok)

subsection \<open>The allow-list copy\<close>

lemma copy_allowed_keys:
  "fst ` set (copy_allowed fs d acc) \<subseteq> fst ` set acc \<union> set fs"
proof (induction fs arbitrary: acc)
  case Nil
  show ?case by simp
next
  case (Cons f fs)
  define acc' where "acc' =
    (case map_of d f of
       None \<Rightarrow> acc
     | Some v \<Rightarrow> if v \<noteq> JUndefined then AList.update f v acc else acc)"
  have "fst ` set acc' \<subseteq> insert f (fst ` set acc)"
    by (auto simp: acc'_def dom_update split: option.splits if_splits)
  moreover have "fst ` set (copy_allowed fs d acc') \<subseteq> fst ` set acc' \<union> set fs"
    by (rule Cons.IH)
  ultimately have "fst ` set (copy_allowed fs d acc') \<subseteq> fst ` set acc \<union> insert f (set fs)"
    by blast
  then show ?case by (simp add: acc'_def)
qed

lemma map_of_copy_allowed_notin:
  "k \<notin> set fs \<Longrightarrow> map_of (copy_allowed fs d acc) k = map_of acc k"
  by (induction fs arbitrary: acc) (auto simp: update_conv' split: option.splits)

lemma map_of_copy_allowed_in:
  "distinct fs \<Longrightarrow> k \<in> set fs \<Longrightarrow>
   map_of (copy_allowed fs d acc) k =
     (case map_of d k of
        None \<Rightarrow> map_of acc k
      | Some v \<Rightarrow> if v = JUndefined then map_of acc k else Some v)"
  by (induction fs arbitrary: acc)
     (auto simp: update_conv' map_of_copy_allowed_notin split: option.splits)

lemma distinct_ALLOWED: "distinct ALLOWED_MOSQUE_FIELDS"
  by (simp add: ALLOWED_MOSQUE_FIELDS_def)

lemma created_by_not_allowed: "''created_by'' \<notin> set ALLOWED_MOSQUE_FIELDS"
  by (simp add: ALLOWED_MOSQUE_FIELDS_def)

lemma status_allowed: "''status'' \<in> set ALLOWED_MOSQUE_FIELDS"
  by (simp add: ALLOWED_MOSQUE_FIELDS_def)

lemma sanitizedData_keys:
  "fst ` set (sanitizedData sub) \<subseteq> set ALLOWED_MOSQUE_FIELDS \<union> {''created_by''}"
  using copy_allowed_keys [of ALLOWED_MOSQUE_FIELDS "sub_data sub" "[]"] status_allowed
  by (auto simp: sanitizedData_def Let_def dom_update)

lemma sanitizedData_new_status:
  "sub_type sub = ''new_mosque'' \<Longrightarrow>
   map_of (sanitizedData sub) ''status'' = Some (JStr ''approved'')"
  by (simp add: sanitizedData_def Let_def update_conv')

lemma sanitizedData_new_created_by:
  "sub_type sub = ''new_mosque'' \<Longrightarrow>
   map_of (sanitizedData sub) ''created_by'' = Some (JStr (sub_submitted_by sub))"
  by (simp add: sanitizedData_def Let_def update_conv')

lemma sanitizedData_new_copied:
  assumes "sub_type sub = ''new_mosque''" and "k \<in> set ALLOWED_MOSQUE_FIELDS" and "k \<noteq> ''status''"
  shows "map_of (sanitizedData sub) k =
     (case map_of (sub_data sub) k of
        None \<Rightarrow> None
      | Some v \<Rightarrow> if v = JUndefined then None else Some v)"
proof -
  have neq: "k \<noteq> ''created_by''"
    using assms(2) created_by_not_allowed by auto
  have "map_of (sanitizedData sub) k =
      map_of (copy_allowed ALLOWED_MOSQUE_FIELDS (sub_data sub) []) k"
    using assms(1,3) neq by (simp add: sanitizedData_def Let_def update_conv')
  also have "\<dots> = (case map_of (sub_data sub) k of
        None \<Rightarrow> None
      | Some v \<Rightarrow> if v = JUndefined then None else Some v)"
    by (simp add: map_of_copy_allowed_in [OF distinct_ALLOWED assms(2)] split: option.splits)
  finally show ?thesis .
qed

subsection \<open>The requests of an approval\<close>

lemma approve_calls:
  assumes "validateRecordId E ident" and "submissions_getOne E (trace s) ident = Inr sub"
    and "approve_image E sub (s\<lparr>trace := trace s @ [GetOne ''submissions'' ident]\<rparr>) = (img, s2)"
  shows "calls_of (submissionsApi_approve E ident rb) s =
     GetOne ''submissions'' ident # image_calls sub @ mosque_calls E sub img @
       (case fst (approve_mosque E sub img s2) of
          Inl err \<Rightarrow> []
        | Inr u \<Rightarrow> [Update ''submissions'' ident
            (approved_fields rb (now E (trace s @ GetOne ''submissions'' ident # image_calls sub @ mosque_calls E sub img)))])"
proof -
  have s2: "s2 = s\<lparr>trace := trace s @ GetOne ''submissions'' ident # image_calls sub\<rparr>"
    using approve_image_state [of E sub "s\<lparr>trace := trace s @ [GetOne ''submissions'' ident]\<rparr>"] assms(3)
    by simp
  obtain r s3 where m: "approve_mosque E sub img s2 = (r, s3)"
    by (cases "approve_mosque E sub img s2")
  have s3: "s3 = s\<lparr>trace := trace s @ GetOne ''submissions'' ident # image_calls sub @ mosque_calls E sub img\<rparr>"
    using approve_mosque_state [of E sub img s2] m s2 by simp
  show ?thesis
    using approve_unfold [OF assms, of rb] m s3
    by (cases r) (simp_all add: calls_of_def submissionsApi_update_def request_def)
qed

lemma image_calls_no_mosque:
  "MosqueCreate d i \<notin> set (image_calls sub)" "MosqueUpdate m d i \<notin> set (image_calls sub)"
  "Update c i' d \<notin> set (image_calls sub)"
  by (simp_all add: image_calls_def split: option.splits)

lemma mosque_calls_new:
  "sub_type sub = ''new_mosque'' \<Longrightarrow> mosque_calls E sub img = [MosqueCreate (sanitizedData sub) img]"
  by (simp add: mosque_calls_def)

lemma mosque_calls_no_update: "Update c i d \<notin> set (mosque_calls E sub img)"
  by (simp add: mosque_calls_def split: option.splits)

section \<open>Allow-listed fields on approval\<close>

text \<open>
  Claim C1, as amended. When a \<open>new_mosque\<close> submission is approved, one
  \<open>mosquesApi.create\<close> call is made, and its data has no key outside the allow-list
  other than \<open>created_by\<close>. Every allow-listed field except \<open>status\<close> carries the
  value of the submitted data (and is absent when the submitted data lacks it or holds
  \<open>undefined\<close>); \<open>status\<close> is always \<open>approved\<close> and \<open>created_by\<close> is always the
  submitter, whatever the submitted data says.
\<close>

theorem approve_new_mosque_fields:
  assumes "validateRecordId E ident"
    and "submissions_getOne E (trace s) ident = Inr sub"
    and "sub_type sub = ''new_mosque''"
  shows "(\<exists>img. MosqueCreate (sanitizedData sub) img
            \<in> set (calls_of (submissionsApi_approve E ident rb) s)) \<and>
    (\<forall>d img. MosqueCreate d img \<in> set (calls_of (submissionsApi_approve E ident rb) s) \<longrightarrow>
       fst ` set d \<subseteq> set ALLOWED_MOSQUE_FIELDS \<union> {''created_by''} \<and>
       map_of d ''status'' = Some (JStr ''approved'') \<and>
       map_of d ''created_by'' = Some (JStr (sub_submitted_by sub)) \<and>
       (\<forall>k \<in> set ALLOWED_MOSQUE_FIELDS. k \<noteq> ''status'' \<longrightarrow>
          map_of d k =
            (case map_of (sub_data sub) k of
               None \<Rightarrow> None
             | Some v \<Rightarrow> if v = JUndefined then None else Some v)))"
proof -
  obtain img s2 where im:
    "approve_image E sub (s\<lparr>trace := trace s @ [GetOne ''submissions'' ident]\<rparr>) = (img, s2)"
    by (cases "approve_image E sub (s\<lparr>trace := trace s @ [GetOne ''submissions'' ident]\<rparr>)")
  note calls = approve_calls [OF assms(1,2) im, of rb]
  have present: "MosqueCreate (sanitizedData sub) img
      \<in> set (calls_of (submissionsApi_approve E ident rb) s)"
    by (simp add: calls mosque_calls_new [OF assms(3)])
  have only: "d = sanitizedData sub"
    if "MosqueCreate d i \<in> set (calls_of (submissionsApi_approve E ident rb) s)" for d i
    using that image_calls_no_mosque(1) [of d i sub]
    by (auto simp: calls mosque_calls_new [OF assms(3)] split: sum.splits)
  have props: "fst ` set (sanitizedData sub) \<subseteq> set ALLOWED_MOSQUE_FIELDS \<union> {''created_by''} \<and>
       map_of (sanitizedData sub) ''status'' = Some (JStr ''approved'') \<and>
       map_of (sanitizedData sub) ''created_by'' = Some (JStr (sub_submitted_by sub)) \<and>
       (\<forall>k \<in> set ALLOWED_MOSQUE_FIELDS. k \<noteq> ''status'' \<longrightarrow>
          map_of (sanitizedData sub) k =
            (case map_of (sub_data sub) k of
               None \<Rightarrow> None
             | Some v \<Rightarrow> if v = JUndefined then None else Some v))"
    using sanitizedData_keys [of sub] sanitizedData_new_status [OF assms(3)]
      sanitizedData_new_created_by [OF assms(3)] sanitizedData_new_copied [OF assms(3)]
    by blast
  show ?thesis
    using present only props by blast
qed

theorem approve_new_mosque_fields_witness:
  "validateRecordId sample_env ''sub000000000001'' \<and>
   submissions_getOne sample_env (trace signed_in) ''sub000000000001'' = Inr sample_submission \<and>
   sub_type sample_submission = ''new_mosque'' \<and>
   MosqueCreate [(''name'', JStr ''Masjid Jamek''), (''lat'', JNum 3),
                 (''status'', JStr ''approved''), (''created_by'', JStr ''usr000000000001'')] None
     \<in> set (calls_of (submissionsApi_approve sample_env ''sub000000000001'' ''adm000000000001'')
          signed_in) \<and>
   map_of [(''name'', JStr ''Masjid Jamek''), (''lat'', JNum 3),
           (''status'', JStr ''approved''), (''created_by'', JStr ''usr000000000001'')]
     ''created_by'' = Some (JStr (sub_submitted_by sample_submission))"
proof -
  have h1: "validateRecordId sample_env ''sub000000000001''"
    by (simp add: sample_env_def)
  have h2: "submissions_getOne sample_env (trace signed_in) ''sub000000000001'' = Inr sample_submission"
    by (simp add: sample_env_def sample_submission_def)
  have h3: "sub_type sample_submission = ''new_mosque''"
    by (simp add: sample_submission_def)
  have mem: "MosqueCreate [(''name'', JStr ''Masjid Jamek''), (''lat'', JNum 3),
                 (''status'', JStr ''approved''), (''created_by'', JStr ''usr000000000001'')] None
     \<in> set (calls_of (submissionsApi_approve sample_env ''sub000000000001'' ''adm000000000001'')
          signed_in)"
    by (simp add: calls_of_def submissionsApi_approve_def submissionsApi_get_def request_def
        approve_image_def approve_mosque_def submissionsApi_update_def approved_fields_def
        sanitizedData_def ALLOWED_MOSQUE_FIELDS_def sample_env_def sample_submission_def
        signed_in_def)
  show ?thesis
    using h1 h2 h3 mem
      approve_new_mosque_fields [OF h1 h2 h3, of "''adm000000000001''"]
    by blast
qed

text \<open>
  The claim as first stated fails: a submission whose data has a \<open>created_by\<close> entry
  is approved, \<open>created_by\<close> is outside the allow-list, and the data sent to
  \<open>mosquesApi.create\<close> has a \<open>created_by\<close> key all the same (holding the submitter).
\<close>

theorem approve_created_by_counterexample:
  "''created_by'' \<in> fst ` set (sub_data sample_submission) \<and>
   ''created_by'' \<notin> set ALLOWED_MOSQUE_FIELDS \<and>
   calls_of (submissionsApi_approve sample_env ''sub000000000001'' ''adm000000000001'') signed_in =
     [GetOne ''submissions'' ''sub000000000001'',
      MosqueCreate [(''name'', JStr ''Masjid Jamek''), (''lat'', JNum 3),
                    (''status'', JStr ''approved''), (''created_by'', JStr ''usr000000000001'')] None,
      Update ''submissions'' ''sub000000000001''
        [(''status'', JStr ''approved''), (''reviewed_by'', JStr ''adm000000000001''),
         (''reviewed_at'', JStr ''2025-01-01T00:00:00.000Z'')]]"
  by (simp add: calls_of_def submissionsApi_approve_def submissionsApi_get_def request_def
      approve_image_def approve_mosque_def submissionsApi_update_def approved_fields_def
      sanitizedData_def ALLOWED_MOSQUE_FIELDS_def sample_env_def sample_submission_def
      signed_in_def)

section \<open>Status filters\<close>

text \<open>
  Claim C2, as amended. A non-empty status outside pending, approved, rejected makes
  \<open>list\<close> throw \<open>Invalid status parameter\<close> with no request issued. So does
  \<open>listMySubmissions\<close> when a session is present; without a session it throws
  \<open>User not authenticated\<close> first, again with no request issued. The empty string is
  handled as an omitted status.
\<close>

theorem list_rejects_invalid_status:
  assumes "st \<noteq> ''''" and "st \<notin> {''pending'', ''approved'', ''rejected''}"
  shows "submissionsApi_list E (Some st) s = (Inl (Error ''Invalid status parameter''), s) \<and>
     (authModel s \<noteq> None \<longrightarrow>
        submissionsApi_listMySubmissions E (Some st) s =
          (Inl (Error ''Invalid status parameter''), s)) \<and>
     (authModel s = None \<longrightarrow>
        submissionsApi_listMySubmissions E (Some st) s =
          (Inl (Error ''User not authenticated''), s)) \<and>
     submissionsApi_list E (Some '''') s = submissionsApi_list E None s \<and>
     submissionsApi_listMySubmissions E (Some '''') s = submissionsApi_listMySubmissions E None s"
  using assms
  by (auto simp: submissionsApi_list_def submissionsApi_listMySubmissions_def
      validateSubmissionStatus_def throw_def split: option.splits)

theorem list_rejects_invalid_status_witness:
  \<open>''approved" || "1" = "1'' \<noteq> '''' \<and>
   ''approved" || "1" = "1'' \<notin> {''pending'', ''approved'', ''rejected''} \<and>
   submissionsApi_list sample_env (Some ''approved" || "1" = "1'') signed_in =
     (Inl (Error ''Invalid status parameter''), signed_in) \<and>
   submissionsApi_listMySubmissions sample_env (Some ''approved" || "1" = "1'') signed_in =
     (Inl (Error ''Invalid status parameter''), signed_in) \<and>
   submissionsApi_listMySubmissions sample_env (Some ''approved" || "1" = "1'') signed_out =
     (Inl (Error ''User not authenticated''), signed_out)\<close>
proof -
  have h1: \<open>''approved" || "1" = "1'' \<noteq> ''''\<close> by simp
  have h2: \<open>''approved" || "1" = "1'' \<notin> {''pending'', ''approved'', ''rejected''}\<close> by simp
  show ?thesis
    using h1 h2 list_rejects_invalid_status [OF h1 h2, of sample_env signed_in]
      list_rejects_invalid_status [OF h1 h2, of sample_env signed_out]
    by (simp add: signed_in_def signed_out_def)
qed

text \<open>
  The claim as first stated fails at the empty string: it is none of the three values,
  yet \<open>list\<close> throws nothing and sends the unfiltered query.
\<close>

theorem list_empty_status_counterexample:
  "'''' \<notin> {''pending'', ''approved'', ''rejected''} \<and>
   submissionsApi_list sample_env (Some '''') signed_in =
     (Inr [], signed_in\<lparr>trace := [GetList ''submissions'' 1 100 '''' ''-submitted_at'']\<rparr>)"
  by (simp add: submissionsApi_list_def getList_submissions_def request_def
      sample_env_def signed_in_def)

section \<open>Record IDs\<close>

text \<open>
  Claim C3, as amended. When the ID fails \<open>validateRecordId\<close>,
  \<open>submissionsApi.get\<close> (and \<open>approve\<close>, which starts with it) throws
  \<open>Invalid submission ID format\<close> with no request issued. \<open>usersApi.get\<close> and
  \<open>usersApi.update\<close> make no check: they send the request with the ID as given and
  return the service's answer.
\<close>

theorem get_rejects_invalid_id:
  assumes "\<not> validateRecordId E ident"
  shows "submissionsApi_get E ident s = (Inl (Error ''Invalid submission ID format''), s) \<and>
    submissionsApi_approve E ident reviewedBy s =
      (Inl (Error ''Invalid submission ID format''), s) \<and>
    calls_of (usersApi_get E ident) s = [GetOne ''users'' ident] \<and>
    fst (usersApi_get E ident s) = users_getOne E (trace s) ident \<and>
    calls_of (usersApi_update E ident data) s = [Update ''users'' ident data] \<and>
    fst (usersApi_update E ident data s) = users_update E (trace s) ident data"
  using assms
  by (simp add: get_invalid submissionsApi_approve_def usersApi_get_def usersApi_update_def
      request_eq)

theorem get_rejects_invalid_id_witness:
  "\<not> validateRecordId sample_env ''../mosques'' \<and>
   submissionsApi_get sample_env ''../mosques'' signed_in =
     (Inl (Error ''Invalid submission ID format''), signed_in) \<and>
   calls_of (usersApi_update sample_env ''../mosques'' [(''verified'', JBool True)]) signed_in =
     [Update ''users'' ''../mosques'' [(''verified'', JBool True)]]"
proof -
  have h: "\<not> validateRecordId sample_env ''../mosques''"
    by (simp add: sample_env_def)
  show ?thesis
    using h get_rejects_invalid_id [OF h, of signed_in "''adm000000000001''" "[(''verified'', JBool True)]"]
    by simp
qed

text \<open>
  The claim as first stated fails for \<open>usersApi.get\<close>: an ID that fails the format
  check is sent to the service and the call returns normally.
\<close>

theorem users_get_unchecked_counterexample:
  "\<not> validateRecordId sample_env ''../mosques'' \<and>
   usersApi_get sample_env ''../mosques'' signed_in =
     (Inr (sample_user\<lparr>user_id := ''../mosques''\<rparr>),
      signed_in\<lparr>trace := [GetOne ''users'' ''../mosques'']\<rparr>)"
  by (simp add: usersApi_get_def request_def sample_env_def signed_in_def)

section \<open>Password change\<close>

text \<open>
  Claim C4. With a session present, the first request of \<open>updatePassword\<close> is the
  authentication with the stored email and the old password. When it is rejected the
  operation throws \<open>Current password is incorrect\<close> and nothing else has been sent:
  the log holds that one request and the session is as before. When it is accepted, the
  one further request is the update carrying the new password and its confirmation, and
  the operation fails exactly when that update does.
\<close>

theorem updatePassword_verifies_first:
  assumes "authModel s = Some model"
  shows "(\<exists>rest. calls_of (usersApi_updatePassword E old new conf) s =
            AuthWithPassword ''users'' (user_email model) old # rest) \<and>
    (\<forall>err. users_authWithPassword E (trace s) (user_email model) old = Inl err \<longrightarrow>
       usersApi_updatePassword E old new conf s =
         (Inl (Error ''Current password is incorrect''),
          s\<lparr>trace := trace s @ [AuthWithPassword ''users'' (user_email model) old]\<rparr>)) \<and>
    (\<forall>u. users_authWithPassword E (trace s) (user_email model) old = Inr u \<longrightarrow>
       calls_of (usersApi_updatePassword E old new conf) s =
         [AuthWithPassword ''users'' (user_email model) old,
          Update ''users'' (user_id u)
            [(''password'', JStr new), (''passwordConfirm'', JStr conf)]] \<and>
       fst (usersApi_updatePassword E old new conf s) =
         map_sum id (\<lambda>_. ())
           (users_update E (trace s @ [AuthWithPassword ''users'' (user_email model) old])
              (user_id u) [(''password'', JStr new), (''passwordConfirm'', JStr conf)]))"
  using assms
  by (auto simp: usersApi_updatePassword_def authWithPassword_def usersApi_update_def
      password_fields_def request_def calls_of_def throw_def split: sum.splits)

theorem updatePassword_verifies_first_witness:
  "authModel signed_in = Some sample_user \<and>
   usersApi_updatePassword sample_env ''guess'' ''n3w-passw0rd'' ''n3w-passw0rd'' signed_in =
     (Inl (Error ''Current password is incorrect''),
      signed_in\<lparr>trace := [AuthWithPassword ''users'' ''aminah@example.org'' ''guess'']\<rparr>) \<and>
   calls_of (usersApi_updatePassword sample_env ''correct horse'' ''n3w-passw0rd'' ''n3w-passw0rd'')
       signed_in =
     [AuthWithPassword ''users'' ''aminah@example.org'' ''correct horse'',
      Update ''users'' ''usr000000000001''
        [(''password'', JStr ''n3w-passw0rd''), (''passwordConfirm'', JStr ''n3w-passw0rd'')]]"
proof -
  have h: "authModel signed_in = Some sample_user"
    by (simp add: signed_in_def)
  show ?thesis
    using h
      updatePassword_verifies_first [OF h, of sample_env "''guess''" "''n3w-passw0rd''" "''n3w-passw0rd''"]
      updatePassword_verifies_first [OF h, of sample_env "''correct horse''" "''n3w-passw0rd''" "''n3w-passw0rd''"]
    by (simp add: sample_env_def sample_user_def signed_in_def)
qed

section \<open>Own submissions\<close>

text \<open>
  Claim C9. Without a session \<open>listMySubmissions\<close> throws \<open>User not authenticated\<close>
  and issues no request. With a session, every query it issues has a filter that starts
  with \<open>submitted_by = "<id of the session's user>"\<close>, followed by nothing or by one of
  the three status constraints; with no status argument that query is issued.
\<close>

theorem listMySubmissions_own_only:
  \<open>(authModel s = None \<longrightarrow>
      submissionsApi_listMySubmissions E status s = (Inl (Error ''User not authenticated''), s)) \<and>
   (\<forall>model. authModel s = Some model \<longrightarrow>
      (\<forall>c \<in> set (calls_of (submissionsApi_listMySubmissions E status) s).
         \<exists>rest \<in> {'''', '' && status = "pending"'', '' && status = "approved"'',
                   '' && status = "rejected"''}.
           c = GetList ''submissions'' 1 100
                 (''submitted_by = "'' @ user_id model @ ''"'' @ rest) ''-submitted_at'') \<and>
      (status = None \<longrightarrow>
         calls_of (submissionsApi_listMySubmissions E status) s =
           [GetList ''submissions'' 1 100
              (''submitted_by = "'' @ user_id model @ ''"'') ''-submitted_at'']))\<close>
  by (auto simp: submissionsApi_listMySubmissions_def getList_submissions_def throw_def
      calls_of_def request_def Let_def validateSubmissionStatus_def split: option.splits)

theorem listMySubmissions_own_only_witness:
  \<open>submissionsApi_listMySubmissions sample_env (Some ''pending'') signed_out =
     (Inl (Error ''User not authenticated''), signed_out) \<and>
   calls_of (submissionsApi_listMySubmissions sample_env None) signed_in =
     [GetList ''submissions'' 1 100 ''submitted_by = "usr000000000001"'' ''-submitted_at'']\<close>
  using listMySubmissions_own_only [of signed_out sample_env "Some ''pending''"]
    listMySubmissions_own_only [of signed_in sample_env None]
  by (simp add: signed_in_def signed_out_def sample_user_def)

section \<open>The order of an approval\<close>

lemma approve_Inr_cases:
  assumes "submissionsApi_approve E ident rb s = (Inr r, s')"
  obtains sub img s2 u s3 where "validateRecordId E ident"
    and "submissions_getOne E (trace s) ident = Inr sub"
    and "approve_image E sub (s\<lparr>trace := trace s @ [GetOne ''submissions'' ident]\<rparr>) = (img, s2)"
    and "approve_mosque E sub img s2 = (Inr u, s3)"
proof -
  have v: "validateRecordId E ident"
  proof (rule ccontr)
    assume "\<not> validateRecordId E ident"
    then have "fst (submissionsApi_approve E ident rb s) = Inl (Error ''Invalid submission ID format'')"
      by (simp add: submissionsApi_approve_def get_invalid)
    with assms show False by simp
  qed
  then obtain sub where g: "submissions_getOne E (trace s) ident = Inr sub"
    using assms by (cases "submissions_getOne E (trace s) ident")
      (auto simp: submissionsApi_approve_def get_ok)
  obtain img s2 where im:
    "approve_image E sub (s\<lparr>trace := trace s @ [GetOne ''submissions'' ident]\<rparr>) = (img, s2)"
    by (cases "approve_image E sub (s\<lparr>trace := trace s @ [GetOne ''submissions'' ident]\<rparr>)")
  obtain u s3 where "approve_mosque E sub img s2 = (Inr u, s3)"
    using assms approve_unfold [OF v g im, of rb]
    by (cases "approve_mosque E sub img s2") (auto split: sum.splits)
  with v g im show ?thesis using that by blast
qed

lemma mosque_calls_ok:
  assumes "fst (approve_mosque E sub img s) = Inr u"
  shows "mosque_calls E sub img =
     (if sub_type sub = ''new_mosque'' then [MosqueCreate (sanitizedData sub) img]
      else if sub_type sub = ''edit_mosque'' \<and> truthy (sub_mosque_id sub)
      then [MosqueUpdate (the (sub_mosque_id sub)) (sanitizedData sub) img] else [])"
  using assms
  by (auto simp: approve_mosque_def mosque_calls_def throw_def split: option.splits if_splits)

lemma image_calls_eq:
  "image_calls sub =
     (if truthy (sub_image sub) then [GetImageFile sub (the (sub_image sub)) ''submissions''] else [])"
  by (simp add: image_calls_def split: option.splits)

text \<open>
  Claim C7, as amended. An approval that completes has issued, in this order: the fetch
  of the submission; the fetch of its image when it names one (a file is passed on only
  if it passed validation); for a \<open>new_mosque\<close> the mosque creation, for an
  \<open>edit_mosque\<close> that names a mosque the mosque update, both with the allow-listed
  data, and otherwise no mosque request at all; last, the update of the submission to
  \<open>approved\<close> with the reviewer and a timestamp.
\<close>

theorem approve_order:
  assumes "submissionsApi_approve E ident rb s = (Inr r, s')"
  shows "\<exists>sub img ts.
     submissions_getOne E (trace s) ident = Inr sub \<and>
     (\<forall>f. img = Some f \<longrightarrow> truthy (sub_image sub) \<and> \<not> truthy (validateImageFile E f)) \<and>
     calls_of (submissionsApi_approve E ident rb) s =
       [GetOne ''submissions'' ident] @
       (if truthy (sub_image sub)
        then [GetImageFile sub (the (sub_image sub)) ''submissions''] else []) @
       (if sub_type sub = ''new_mosque'' then [MosqueCreate (sanitizedData sub) img]
        else if sub_type sub = ''edit_mosque'' \<and> truthy (sub_mosque_id sub)
        then [MosqueUpdate (the (sub_mosque_id sub)) (sanitizedData sub) img] else []) @
       [Update ''submissions'' ident
          [(''status'', JStr ''approved''), (''reviewed_by'', JStr rb),
           (''reviewed_at'', JStr ts)]]"
proof -
  from assms obtain sub img s2 u s3 where v: "validateRecordId E ident"
    and g: "submissions_getOne E (trace s) ident = Inr sub"
    and im: "approve_image E sub (s\<lparr>trace := trace s @ [GetOne ''submissions'' ident]\<rparr>) = (img, s2)"
    and mo: "approve_mosque E sub img s2 = (Inr u, s3)"
    by (rule approve_Inr_cases)
  have val: "\<forall>f. img = Some f \<longrightarrow> truthy (sub_image sub) \<and> \<not> truthy (validateImageFile E f)"
    using approve_image_validated [of E sub "s\<lparr>trace := trace s @ [GetOne ''submissions'' ident]\<rparr>"] im
    by simp
  have mc: "mosque_calls E sub img =
     (if sub_type sub = ''new_mosque'' then [MosqueCreate (sanitizedData sub) img]
      else if sub_type sub = ''edit_mosque'' \<and> truthy (sub_mosque_id sub)
      then [MosqueUpdate (the (sub_mosque_id sub)) (sanitizedData sub) img] else [])"
    using mosque_calls_ok [of E sub img s2 u] mo by simp
  have "calls_of (submissionsApi_approve E ident rb) s =
       [GetOne ''submissions'' ident] @ image_calls sub @ mosque_calls E sub img @
       [Update ''submissions'' ident
          [(''status'', JStr ''approved''), (''reviewed_by'', JStr rb),
           (''reviewed_at'', JStr (now E (trace s @ GetOne ''submissions'' ident # image_calls sub @ mosque_calls E sub img)))]]"
    using approve_calls [OF v g im, of rb] mo by (simp add: approved_fields_def)
  then show ?thesis
    unfolding mc image_calls_eq using g val by blast
qed

theorem approve_order_witness:
  "submissionsApi_approve sample_env ''sub000000000001'' ''adm000000000001'' signed_in =
     (Inr (sample_submission\<lparr>sub_status := ''approved''\<rparr>),
      signed_in\<lparr>trace :=
        [GetOne ''submissions'' ''sub000000000001'',
         MosqueCreate (sanitizedData sample_submission) None,
         Update ''submissions'' ''sub000000000001''
           [(''status'', JStr ''approved''), (''reviewed_by'', JStr ''adm000000000001''),
            (''reviewed_at'', JStr ''2025-01-01T00:00:00.000Z'')]]\<rparr>) \<and>
   (\<exists>sub img ts.
     submissions_getOne sample_env (trace signed_in) ''sub000000000001'' = Inr sub \<and>
     (\<forall>f. img = Some f \<longrightarrow> truthy (sub_image sub) \<and> \<not> truthy (validateImageFile sample_env f)) \<and>
     calls_of (submissionsApi_approve sample_env ''sub000000000001'' ''adm000000000001'') signed_in =
       [GetOne ''submissions'' ''sub000000000001''] @
       (if truthy (sub_image sub)
        then [GetImageFile sub (the (sub_image sub)) ''submissions''] else []) @
       (if sub_type sub = ''new_mosque'' then [MosqueCreate (sanitizedData sub) img]
        else if sub_type sub = ''edit_mosque'' \<and> truthy (sub_mosque_id sub)
        then [MosqueUpdate (the (sub_mosque_id sub)) (sanitizedData sub) img] else []) @
       [Update ''submissions'' ''sub000000000001''
          [(''status'', JStr ''approved''), (''reviewed_by'', JStr ''adm000000000001''),
           (''reviewed_at'', JStr ts)]])"
proof -
  have run: "submissionsApi_approve sample_env ''sub000000000001'' ''adm000000000001'' signed_in =
     (Inr (sample_submission\<lparr>sub_status := ''approved''\<rparr>),
      signed_in\<lparr>trace :=
        [GetOne ''submissions'' ''sub000000000001'',
         MosqueCreate (sanitizedData sample_submission) None,
         Update ''submissions'' ''sub000000000001''
           [(''status'', JStr ''approved''), (''reviewed_by'', JStr ''adm000000000001''),
            (''reviewed_at'', JStr ''2025-01-01T00:00:00.000Z'')]]\<rparr>)"
    by (simp add: submissionsApi_approve_def submissionsApi_get_def request_def
        approve_image_def approve_mosque_def submissionsApi_update_def approved_fields_def
        sample_env_def sample_submission_def signed_in_def)
  show ?thesis
    using run approve_order [OF run] by blast
qed

text \<open>
  The claim as first stated fails for an \<open>edit_mosque\<close> submission that names no
  mosque: the approval completes, the submission is marked approved, and no mosque
  record has been created or updated.
\<close>

theorem approve_orphan_edit_counterexample:
  "sub_type orphan_edit = ''edit_mosque'' \<and>
   submissionsApi_approve orphan_edit_env ''sub000000000001'' ''adm000000000001'' signed_in =
     (Inr (sample_submission\<lparr>sub_status := ''approved''\<rparr>),
      signed_in\<lparr>trace :=
        [GetOne ''submissions'' ''sub000000000001'',
         Update ''submissions'' ''sub000000000001''
           [(''status'', JStr ''approved''), (''reviewed_by'', JStr ''adm000000000001''),
            (''reviewed_at'', JStr ''2025-01-01T00:00:00.000Z'')]]\<rparr>)"
  by (simp add: submissionsApi_approve_def submissionsApi_get_def request_def
      approve_image_def approve_mosque_def submissionsApi_update_def approved_fields_def
      orphan_edit_env_def orphan_edit_def sample_env_def sample_submission_def signed_in_def)

section \<open>A lost image\<close>

lemma approve_image_failed:
  assumes "sub_image sub = Some name" and "name \<noteq> ''''"
    and "case getImageFileFromRecord E (trace s) sub name ''submissions'' of
           Inl err \<Rightarrow> True
         | Inr None \<Rightarrow> True
         | Inr (Some f) \<Rightarrow> truthy (validateImageFile E f)"
  shows "approve_image E sub s =
     (None, s\<lparr>trace := trace s @ [GetImageFile sub name ''submissions'']\<rparr>)"
  using assms
  by (auto simp: approve_image_def request_def split: sum.splits option.splits)

lemma approve_get_failure:
  "submissionsApi_get E ident s = (Inl err, s1) \<Longrightarrow>
   submissionsApi_approve E ident rb s = (Inl err, s1)"
  by (simp add: submissionsApi_approve_def)

lemma approve_mosque_failure:
  assumes "validateRecordId E ident" and "submissions_getOne E (trace s) ident = Inr sub"
    and "approve_image E sub (s\<lparr>trace := trace s @ [GetOne ''submissions'' ident]\<rparr>) = (img, s2)"
    and "approve_mosque E sub img s2 = (Inl err, s3)"
  shows "submissionsApi_approve E ident rb s = (Inl err, s3)"
  using approve_unfold [OF assms(1-3), of rb] assms(4) by simp

lemma mosque_calls_edit:
  "sub_type sub = ''edit_mosque'' \<Longrightarrow> sub_mosque_id sub = Some mid \<Longrightarrow> mid \<noteq> '''' \<Longrightarrow>
   validateRecordId E mid \<Longrightarrow>
   mosque_calls E sub img = [MosqueUpdate mid (sanitizedData sub) img]"
  by (simp add: mosque_calls_def)

lemma mosque_calls_none:
  "sub_type sub \<noteq> ''new_mosque'' \<Longrightarrow>
   \<not> (sub_type sub = ''edit_mosque'' \<and> truthy (sub_mosque_id sub)) \<Longrightarrow>
   mosque_calls E sub img = []"
  by (auto simp: mosque_calls_def split: option.splits)

lemma approve_mosque_none:
  "sub_type sub \<noteq> ''new_mosque'' \<Longrightarrow>
   \<not> (sub_type sub = ''edit_mosque'' \<and> truthy (sub_mosque_id sub)) \<Longrightarrow>
   approve_mosque E sub img s = (Inr (), s)"
  by (auto simp: approve_mosque_def)

text \<open>
  Claim C5, as amended. When the submission names an image and the fetch throws, yields
  no file, or yields a file that fails validation, the approval goes on with no image:
  it continues with the mosque step run without a file, and, when that step does not
  throw, with the update that marks the submission approved. For a \<open>new_mosque\<close>
  the third request is the creation without image; for an \<open>edit_mosque\<close> with a
  well-formed mosque reference it is the update without image; for an \<open>edit_mosque\<close>
  that names no mosque (or any other type) no mosque request is made and the submission
  is marked approved all the same. An error of the mosque step, of the final update or
  of the initial fetch is the error of the approval.
\<close>

theorem approve_image_failure_swallowed:
  "(validateRecordId E ident \<and> submissions_getOne E (trace s) ident = Inr sub \<and>
    sub_image sub = Some name \<and> name \<noteq> '''' \<and>
    (case getImageFileFromRecord E (trace s @ [GetOne ''submissions'' ident]) sub name
            ''submissions'' of
       Inl err \<Rightarrow> True
     | Inr None \<Rightarrow> True
     | Inr (Some f) \<Rightarrow> truthy (validateImageFile E f)) \<longrightarrow>
    submissionsApi_approve E ident rb s =
      (case approve_mosque E sub None
              (s\<lparr>trace := trace s @
                 [GetOne ''submissions'' ident, GetImageFile sub name ''submissions'']\<rparr>) of
         (Inl err, s3) \<Rightarrow> (Inl err, s3)
       | (Inr u, s3) \<Rightarrow>
           (submissions_update E (trace s3) ident (approved_fields rb (now E (trace s3))),
            s3\<lparr>trace := trace s3 @
              [Update ''submissions'' ident (approved_fields rb (now E (trace s3)))]\<rparr>)) \<and>
    (sub_type sub = ''new_mosque'' \<longrightarrow>
       take 3 (calls_of (submissionsApi_approve E ident rb) s) =
         [GetOne ''submissions'' ident, GetImageFile sub name ''submissions'',
          MosqueCreate (sanitizedData sub) None]) \<and>
    (\<forall>mid. sub_type sub = ''edit_mosque'' \<and> sub_mosque_id sub = Some mid \<and> mid \<noteq> '''' \<and>
       validateRecordId E mid \<longrightarrow>
       take 3 (calls_of (submissionsApi_approve E ident rb) s) =
         [GetOne ''submissions'' ident, GetImageFile sub name ''submissions'',
          MosqueUpdate mid (sanitizedData sub) None]) \<and>
    (sub_type sub \<noteq> ''new_mosque'' \<and>
     \<not> (sub_type sub = ''edit_mosque'' \<and> truthy (sub_mosque_id sub)) \<longrightarrow>
       calls_of (submissionsApi_approve E ident rb) s =
         [GetOne ''submissions'' ident, GetImageFile sub name ''submissions'',
          Update ''submissions'' ident
            (approved_fields rb
               (now E (trace s @
                  [GetOne ''submissions'' ident, GetImageFile sub name ''submissions''])))])) \<and>
   (\<forall>err s1. submissionsApi_get E ident s = (Inl err, s1) \<longrightarrow>
      submissionsApi_approve E ident rb s = (Inl err, s1))"
proof -
  let ?s1 = "s\<lparr>trace := trace s @ [GetOne ''submissions'' ident]\<rparr>"
  let ?s2 = "s\<lparr>trace := trace s @
                 [GetOne ''submissions'' ident, GetImageFile sub name ''submissions'']\<rparr>"
  {
    assume v: "validateRecordId E ident"
      and g: "submissions_getOne E (trace s) ident = Inr sub"
      and n: "sub_image sub = Some name" "name \<noteq> ''''"
      and f: "case getImageFileFromRecord E (trace s @ [GetOne ''submissions'' ident]) sub name
            ''submissions'' of
         Inl err \<Rightarrow> True
       | Inr None \<Rightarrow> True
       | Inr (Some f) \<Rightarrow> truthy (validateImageFile E f)"
    have im: "approve_image E sub ?s1 = (None, ?s2)"
      using approve_image_failed [of sub name E ?s1] n f by simp
    have ic: "image_calls sub = [GetImageFile sub name ''submissions'']"
      using n by (simp add: image_calls_def)
    note calls = approve_calls [OF v g im, of rb]
    have A: "submissionsApi_approve E ident rb s =
      (case approve_mosque E sub None ?s2 of
         (Inl err, s3) \<Rightarrow> (Inl err, s3)
       | (Inr u, s3) \<Rightarrow>
           (submissions_update E (trace s3) ident (approved_fields rb (now E (trace s3))),
            s3\<lparr>trace := trace s3 @
              [Update ''submissions'' ident (approved_fields rb (now E (trace s3)))]\<rparr>))"
      using approve_unfold [OF v g im, of rb]
      by (simp add: submissionsApi_update_def request_def split: prod.splits sum.splits)
    have B: "take 3 (calls_of (submissionsApi_approve E ident rb) s) =
         [GetOne ''submissions'' ident, GetImageFile sub name ''submissions'',
          MosqueCreate (sanitizedData sub) None]" if "sub_type sub = ''new_mosque''"
      by (simp add: calls ic mosque_calls_new [OF that])
    have C: "take 3 (calls_of (submissionsApi_approve E ident rb) s) =
         [GetOne ''submissions'' ident, GetImageFile sub name ''submissions'',
          MosqueUpdate mid (sanitizedData sub) None]"
      if "sub_type sub = ''edit_mosque''" "sub_mosque_id sub = Some mid" "mid \<noteq> ''''"
         "validateRecordId E mid" for mid
      by (simp add: calls ic mosque_calls_edit [OF that])
    have D: "calls_of (submissionsApi_approve E ident rb) s =
         [GetOne ''submissions'' ident, GetImageFile sub name ''submissions'',
          Update ''submissions'' ident
            (approved_fields rb
               (now E (trace s @
                  [GetOne ''submissions'' ident, GetImageFile sub name ''submissions''])))]"
      if "sub_type sub \<noteq> ''new_mosque''"
         "\<not> (sub_type sub = ''edit_mosque'' \<and> truthy (sub_mosque_id sub))"
      by (simp add: calls ic mosque_calls_none [OF that] approve_mosque_none [OF that])
    note A B C D
  }
  then show ?thesis
    using approve_get_failure [of E ident s _ _ rb] by blast
qed

theorem approve_image_failure_swallowed_witness:
  "validateRecordId lost_image_env ''sub000000000001'' \<and>
   submissions_getOne lost_image_env (trace signed_in) ''sub000000000001'' =
     Inr lost_image_submission \<and>
   sub_image lost_image_submission = Some ''front.jpg'' \<and>
   getImageFileFromRecord lost_image_env
       (trace signed_in @ [GetOne ''submissions'' ''sub000000000001''])
       lost_image_submission ''front.jpg'' ''submissions'' =
     Inl (ClientResponseError ''File not found.'') \<and>
   sub_type lost_image_submission = ''new_mosque'' \<and>
   take 3 (calls_of (submissionsApi_approve lost_image_env ''sub000000000001'' ''adm000000000001'')
             signed_in) =
     [GetOne ''submissions'' ''sub000000000001'',
      GetImageFile lost_image_submission ''front.jpg'' ''submissions'',
      MosqueCreate (sanitizedData lost_image_submission) None] \<and>
   fst (submissionsApi_approve lost_image_env ''sub000000000001'' ''adm000000000001'' signed_in) =
     Inr (sample_submission\<lparr>sub_status := ''approved''\<rparr>)"
proof -
  have h1: "validateRecordId lost_image_env ''sub000000000001''"
    by (simp add: lost_image_env_def sample_env_def)
  have h2: "submissions_getOne lost_image_env (trace signed_in) ''sub000000000001'' =
      Inr lost_image_submission"
    by (simp add: lost_image_env_def)
  have h3: "sub_image lost_image_submission = Some ''front.jpg''"
    by (simp add: lost_image_submission_def)
  have h4: "getImageFileFromRecord lost_image_env
       (trace signed_in @ [GetOne ''submissions'' ''sub000000000001''])
       lost_image_submission ''front.jpg'' ''submissions'' =
     Inl (ClientResponseError ''File not found.'')"
    by (simp add: lost_image_env_def)
  have h5: "sub_type lost_image_submission = ''new_mosque''"
    by (simp add: lost_image_submission_def sample_submission_def)
  have m: "approve_mosque lost_image_env lost_image_submission None st =
      (Inr (), st\<lparr>trace := trace st @ [MosqueCreate (sanitizedData lost_image_submission) None]\<rparr>)"
    for st
    by (simp add: approve_mosque_def h5 request_def lost_image_env_def sample_env_def)
  have u: "submissions_update lost_image_env h ''sub000000000001'' d =
      Inr (sample_submission\<lparr>sub_status := ''approved''\<rparr>)" for h d
    by (simp add: lost_image_env_def sample_env_def sample_submission_def)
  show ?thesis
    using h1 h2 h3 h4 h5
      approve_image_failure_swallowed [of lost_image_env "''sub000000000001''" signed_in
        lost_image_submission "''front.jpg''" "''adm000000000001''"]
    by (simp add: m u)
qed

text \<open>
  The claim as first stated fails for an \<open>edit_mosque\<close> submission that has an image
  but names no mosque: the fetch error is swallowed and the submission is marked
  approved, yet no mosque record is created or updated.
\<close>

theorem approve_orphan_image_counterexample:
  "sub_image orphan_edit_image = Some ''front.jpg'' \<and>
   getImageFileFromRecord orphan_edit_image_env
       [GetOne ''submissions'' ''sub000000000001'']
       orphan_edit_image ''front.jpg'' ''submissions'' =
     Inl (ClientResponseError ''File not found.'') \<and>
   submissionsApi_approve orphan_edit_image_env ''sub000000000001'' ''adm000000000001'' signed_in =
     (Inr (sample_submission\<lparr>sub_status := ''approved''\<rparr>),
      signed_in\<lparr>trace :=
        [GetOne ''submissions'' ''sub000000000001'',
         GetImageFile orphan_edit_image ''front.jpg'' ''submissions'',
         Update ''submissions'' ''sub000000000001''
           [(''status'', JStr ''approved''), (''reviewed_by'', JStr ''adm000000000001''),
            (''reviewed_at'', JStr ''2025-01-01T00:00:00.000Z'')]]\<rparr>)"
proof -
  have t: "sub_type orphan_edit_image = ''edit_mosque''" "sub_mosque_id orphan_edit_image = None"
    "sub_image orphan_edit_image = Some ''front.jpg''"
    by (simp_all add: orphan_edit_image_def orphan_edit_def sample_submission_def)
  show ?thesis
    by (simp add: t submissionsApi_approve_def submissionsApi_get_def request_def
      approve_image_def approve_mosque_def submissionsApi_update_def approved_fields_def
      orphan_edit_image_env_def lost_image_env_def sample_env_def signed_in_def
      sample_submission_def)
qed

section \<open>A failing mosque step\<close>

text \<open>
  Claim C10. When the mosque step of an approval throws, the approval throws the same
  error and has issued no update request at all, so the submission keeps its status,
  reviewer and review time. An \<open>edit_mosque\<close> submission whose mosque reference
  fails the ID check is such a case: the error is \<open>Invalid mosque ID format\<close> and
  nothing is sent after the image step.
\<close>

theorem approve_mosque_failure_no_update:
  assumes "validateRecordId E ident"
    and "submissions_getOne E (trace s) ident = Inr sub"
    and "approve_image E sub (s\<lparr>trace := trace s @ [GetOne ''submissions'' ident]\<rparr>) = (img, s2)"
  shows "(\<forall>err s3. approve_mosque E sub img s2 = (Inl err, s3) \<longrightarrow>
       submissionsApi_approve E ident rb s = (Inl err, s3) \<and>
       (\<forall>c i d. Update c i d \<notin> set (calls_of (submissionsApi_approve E ident rb) s))) \<and>
    (\<forall>mid. sub_type sub = ''edit_mosque'' \<and> sub_mosque_id sub = Some mid \<and> mid \<noteq> '''' \<and>
       \<not> validateRecordId E mid \<longrightarrow>
       submissionsApi_approve E ident rb s = (Inl (Error ''Invalid mosque ID format''), s2) \<and>
       (\<forall>c i d. Update c i d \<notin> set (calls_of (submissionsApi_approve E ident rb) s)))"
proof -
  note calls = approve_calls [OF assms, of rb]
  have fail: "submissionsApi_approve E ident rb s = (Inl err, s3) \<and>
       (\<forall>c i d. Update c i d \<notin> set (calls_of (submissionsApi_approve E ident rb) s))"
    if "approve_mosque E sub img s2 = (Inl err, s3)" for err s3
    using that approve_mosque_failure [OF assms that, of rb]
      image_calls_no_mosque(3) [of _ _ _ sub] mosque_calls_no_update [of _ _ _ E sub img]
    by (simp add: calls)
  have bad: "approve_mosque E sub img s2 = (Inl (Error ''Invalid mosque ID format''), s2)"
    if "sub_type sub = ''edit_mosque''" "sub_mosque_id sub = Some mid" "mid \<noteq> ''''"
       "\<not> validateRecordId E mid" for mid
    using that by (simp add: approve_mosque_def throw_def)
  show ?thesis
    using fail bad by blast
qed

theorem approve_mosque_failure_no_update_witness:
  "validateRecordId bad_target_env ''sub000000000001'' \<and>
   submissions_getOne bad_target_env (trace signed_in) ''sub000000000001'' = Inr bad_target_edit \<and>
   sub_mosque_id bad_target_edit = Some ''../users'' \<and>
   \<not> validateRecordId bad_target_env ''../users'' \<and>
   submissionsApi_approve bad_target_env ''sub000000000001'' ''adm000000000001'' signed_in =
     (Inl (Error ''Invalid mosque ID format''),
      signed_in\<lparr>trace := [GetOne ''submissions'' ''sub000000000001'']\<rparr>) \<and>
   Update ''submissions'' ''sub000000000001''
       [(''status'', JStr ''approved''), (''reviewed_by'', JStr ''adm000000000001''),
        (''reviewed_at'', JStr ''2025-01-01T00:00:00.000Z'')]
     \<notin> set (calls_of (submissionsApi_approve bad_target_env ''sub000000000001'' ''adm000000000001'')
          signed_in) \<and>
   submissionsApi_approve refusing_env ''sub000000000001'' ''adm000000000001'' signed_in =
     (Inl (ClientResponseError ''Failed to create record.''),
      signed_in\<lparr>trace := [GetOne ''submissions'' ''sub000000000001'',
                           MosqueCreate (sanitizedData sample_submission) None]\<rparr>) \<and>
   Update ''submissions'' ''sub000000000001''
       [(''status'', JStr ''approved''), (''reviewed_by'', JStr ''adm000000000001''),
        (''reviewed_at'', JStr ''2025-01-01T00:00:00.000Z'')]
     \<notin> set (calls_of (submissionsApi_approve refusing_env ''sub000000000001'' ''adm000000000001'')
          signed_in)"
proof -
  have h1: "validateRecordId bad_target_env ''sub000000000001''"
    by (simp add: bad_target_env_def sample_env_def)
  have h2: "submissions_getOne bad_target_env (trace signed_in) ''sub000000000001'' =
      Inr bad_target_edit"
    by (simp add: bad_target_env_def)
  have t: "sub_type bad_target_edit = ''edit_mosque''"
    "sub_mosque_id bad_target_edit = Some ''../users''" "sub_image bad_target_edit = None"
    by (simp_all add: bad_target_edit_def sample_submission_def)
  have h3: "approve_image bad_target_env bad_target_edit
      (signed_in\<lparr>trace := trace signed_in @ [GetOne ''submissions'' ''sub000000000001'']\<rparr>) =
      (None, signed_in\<lparr>trace := [GetOne ''submissions'' ''sub000000000001'']\<rparr>)"
    by (simp add: approve_image_def t signed_in_def)
  have h4: "\<not> validateRecordId bad_target_env ''../users''"
    by (simp add: bad_target_env_def sample_env_def)
  have bad: "submissionsApi_approve bad_target_env ''sub000000000001'' ''adm000000000001'' signed_in =
     (Inl (Error ''Invalid mosque ID format''),
      signed_in\<lparr>trace := [GetOne ''submissions'' ''sub000000000001'']\<rparr>) \<and>
   Update ''submissions'' ''sub000000000001''
       [(''status'', JStr ''approved''), (''reviewed_by'', JStr ''adm000000000001''),
        (''reviewed_at'', JStr ''2025-01-01T00:00:00.000Z'')]
     \<notin> set (calls_of (submissionsApi_approve bad_target_env ''sub000000000001'' ''adm000000000001'')
          signed_in)"
    using t h4 approve_mosque_failure_no_update [OF h1 h2 h3, of "''adm000000000001''"]
    by simp
  have r1: "validateRecordId refusing_env ''sub000000000001''"
    by (simp add: refusing_env_def sample_env_def)
  have r2: "submissions_getOne refusing_env (trace signed_in) ''sub000000000001'' =
      Inr sample_submission"
    by (simp add: refusing_env_def sample_env_def sample_submission_def)
  have r3: "approve_image refusing_env sample_submission
      (signed_in\<lparr>trace := trace signed_in @ [GetOne ''submissions'' ''sub000000000001'']\<rparr>) =
      (None, signed_in\<lparr>trace := [GetOne ''submissions'' ''sub000000000001'']\<rparr>)"
    by (simp add: approve_image_def sample_submission_def signed_in_def)
  have r4: "approve_mosque refusing_env sample_submission None
      (signed_in\<lparr>trace := [GetOne ''submissions'' ''sub000000000001'']\<rparr>) =
      (Inl (ClientResponseError ''Failed to create record.''),
       signed_in\<lparr>trace := [GetOne ''submissions'' ''sub000000000001'',
                            MosqueCreate (sanitizedData sample_submission) None]\<rparr>)"
    by (simp add: approve_mosque_def request_def refusing_env_def signed_in_def
        sample_submission_def)
  have refused: "submissionsApi_approve refusing_env ''sub000000000001'' ''adm000000000001'' signed_in =
     (Inl (ClientResponseError ''Failed to create record.''),
      signed_in\<lparr>trace := [GetOne ''submissions'' ''sub000000000001'',
                           MosqueCreate (sanitizedData sample_submission) None]\<rparr>) \<and>
   Update ''submissions'' ''sub000000000001''
       [(''status'', JStr ''approved''), (''reviewed_by'', JStr ''adm000000000001''),
        (''reviewed_at'', JStr ''2025-01-01T00:00:00.000Z'')]
     \<notin> set (calls_of (submissionsApi_approve refusing_env ''sub000000000001'' ''adm000000000001'')
          signed_in)"
    using r4 approve_mosque_failure_no_update [OF r1 r2 r3, of "''adm000000000001''"]
    by simp
  show ?thesis
    using h1 h2 t(2) h4 bad refused by (intro conjI) simp_all
qed

section \<open>The permission-fix script: properties\<close>

lemma prompt_authenticate_state:
  "snd (prompt_authenticate P s) =
     s\<lparr>trace := trace s @
        (case question P ''Email: '' of
           None \<Rightarrow> []
         | Some e \<Rightarrow>
             (case question P ''Password: '' of
                None \<Rightarrow> []
              | Some p \<Rightarrow> [AdminAuth e p]))\<rparr>"
  by (simp add: prompt_authenticate_def request_def split: option.splits sum.splits)

lemma prompt_authenticate_calls:
  "\<exists>cs. snd (prompt_authenticate P s) = s\<lparr>trace := trace s @ cs\<rparr> \<and>
        (\<forall>c \<in> set cs. \<exists>e p. c = AdminAuth e p)"
  by (intro exI [of _ "case question P ''Email: '' of
           None \<Rightarrow> []
         | Some e \<Rightarrow>
             (case question P ''Password: '' of
                None \<Rightarrow> []
              | Some p \<Rightarrow> [AdminAuth e p])"])
     (auto simp: prompt_authenticate_state split: option.splits)

lemma authenticate_state:
  "\<exists>cs. snd (authenticate P s) = s\<lparr>trace := trace s @ cs\<rparr> \<and>
        (\<forall>c \<in> set cs. \<exists>e p. c = AdminAuth e p)"
proof (cases "truthy (POCKETBASE_ADMIN_EMAIL P) \<and> truthy (POCKETBASE_ADMIN_PASSWORD P)")
  case False
  then have "authenticate P s = prompt_authenticate P s"
    by (auto simp: authenticate_def split: option.splits)
  then show ?thesis
    using prompt_authenticate_calls [of P s] by simp
next
  case True
  then obtain e pw where ep: "POCKETBASE_ADMIN_EMAIL P = Some e" "POCKETBASE_ADMIN_PASSWORD P = Some pw"
    "e \<noteq> ''''" "pw \<noteq> ''''"
    by (cases "POCKETBASE_ADMIN_EMAIL P"; cases "POCKETBASE_ADMIN_PASSWORD P") auto
  let ?s' = "s\<lparr>trace := trace s @ [AdminAuth e pw]\<rparr>"
  show ?thesis
  proof (cases "admins_authWithPassword P (trace s) e pw")
    case (Inr u)
    then have "snd (authenticate P s) = ?s'"
      using ep by (simp add: authenticate_def request_def)
    then show ?thesis
      by (intro exI [of _ "[AdminAuth e pw]"]) simp
  next
    case (Inl err)
    then have a: "authenticate P s = prompt_authenticate P ?s'"
      using ep by (simp add: authenticate_def request_def)
    from prompt_authenticate_calls [of P ?s'] obtain cs
      where cs: "snd (prompt_authenticate P ?s') = ?s'\<lparr>trace := trace ?s' @ cs\<rparr>"
        and admin: "\<forall>c \<in> set cs. \<exists>e p. c = AdminAuth e p"
      by blast
    have "snd (authenticate P s) = s\<lparr>trace := trace s @ (AdminAuth e pw # cs)\<rparr>"
      by (simp add: a cs)
    then show ?thesis
      using admin by (intro exI [of _ "AdminAuth e pw # cs"]) simp
  qed
qed

lemma prompt_authenticate_answered:
  "question P ''Email: '' = Some e \<Longrightarrow> question P ''Password: '' = Some p \<Longrightarrow>
   fst (prompt_authenticate P s) =
     Some (case admins_authWithPassword P (trace s) e p of Inl err \<Rightarrow> False | Inr u \<Rightarrow> True)"
  by (simp add: prompt_authenticate_def request_def split: sum.splits)

lemma authenticate_answered:
  assumes "question P ''Email: '' = Some e" and "question P ''Password: '' = Some p"
  shows "fst (authenticate P s) \<noteq> None"
    and "(\<forall>h e' p'. \<exists>err. admins_authWithPassword P h e' p' = Inl err) \<Longrightarrow>
         fst (authenticate P s) = Some False"
proof -
  have pa: "fst (prompt_authenticate P s') \<noteq> None" for s'
    by (simp add: prompt_authenticate_answered [OF assms])
  show "fst (authenticate P s) \<noteq> None"
    using pa by (auto simp: authenticate_def request_def split: option.splits sum.splits)
  assume rej: "\<forall>h e' p'. \<exists>err. admins_authWithPassword P h e' p' = Inl err"
  have pf: "fst (prompt_authenticate P s') = Some False" for s'
  proof -
    from rej obtain err where "admins_authWithPassword P (trace s') e p = Inl err" by blast
    then show ?thesis by (simp add: prompt_authenticate_answered [OF assms])
  qed
  have no: "admins_authWithPassword P h e' p' \<noteq> Inr u" for h e' p' u
    using rej by (metis sum.distinct(1))
  show "fst (authenticate P s) = Some False"
    using pf no by (auto simp: authenticate_def request_def split: option.splits sum.splits)
qed

lemma fix_state:
  assumes "collections_getOne P (trace s) ''audit_logs'' = Inr coll"
  shows "snd (fixAuditLogsPermissions P s) =
     s\<lparr>trace := trace s @ [CollectionsGetOne ''audit_logs'',
                            CollectionsUpdate (coll_id coll) createRule_patch]\<rparr>"
    and "success (fst (fixAuditLogsPermissions P s)) =
      (\<exists>u. collections_update P (trace s @ [CollectionsGetOne ''audit_logs'']) (coll_id coll)
              createRule_patch = Inr u)"
  using assms
  by (auto simp: fixAuditLogsPermissions_def request_def split: sum.splits)

lemma fix_getOne_failure:
  assumes "collections_getOne P (trace s) ''audit_logs'' = Inl err"
  shows "fixAuditLogsPermissions P s =
     (\<lparr>success = False, failure = Some (message err)\<rparr>,
      s\<lparr>trace := trace s @ [CollectionsGetOne ''audit_logs'']\<rparr>)"
  using assms by (simp add: fixAuditLogsPermissions_def request_def)

lemma script_run:
  assumes "truthy (js_or (VITE_POCKETBASE_URL P) (POCKETBASE_URL P))"
    and "authenticate P s = (Some True, s1)"
  shows "script P s =
     (if success (fst (fixAuditLogsPermissions P s1)) then Returned else Exited 1,
      snd (fixAuditLogsPermissions P s1))"
  using assms by (cases "fixAuditLogsPermissions P s1") (simp add: script_def main_def)

lemma script_auth_failure:
  assumes "truthy (js_or (VITE_POCKETBASE_URL P) (POCKETBASE_URL P))"
    and "fst (authenticate P s) = Some False"
  shows "script P s = (Exited 1, snd (authenticate P s))"
  using assms by (cases "authenticate P s") (simp add: script_def main_def)

lemma sample_authenticate:
  "admins_authWithPassword P = admins_authWithPassword sample_script_env \<Longrightarrow>
   POCKETBASE_ADMIN_EMAIL P = Some ''admin@example.org'' \<Longrightarrow>
   POCKETBASE_ADMIN_PASSWORD P = Some ''s3cret'' \<Longrightarrow>
   authenticate P signed_out =
     (Some True, signed_out\<lparr>trace := [AdminAuth ''admin@example.org'' ''s3cret'']\<rparr>)"
  by (simp add: authenticate_def request_def sample_script_env_def signed_out_def)

text \<open>
  Claim C6. When a URL is configured, the admin authentication succeeds and the service
  returns the \<open>audit_logs\<close> collection, the script issues, after its authentication
  requests, the read of the collection and one update of that collection. The body of
  the update is the single field \<open>createRule\<close> with the value
  \<open>@request.auth.id != ""\<close>; no other update is sent, and the body has no entry for
  the list, view, update or delete rule.
\<close>

theorem fix_sets_only_createRule:
  assumes "truthy (js_or (VITE_POCKETBASE_URL P) (POCKETBASE_URL P))"
    and "authenticate P s = (Some True, s1)"
    and "collections_getOne P (trace s1) ''audit_logs'' = Inr coll"
  shows \<open>calls_of (script P) s =
      calls_of (authenticate P) s @
      [CollectionsGetOne ''audit_logs'',
       CollectionsUpdate (coll_id coll) [(''createRule'', JStr ''@request.auth.id != ""'')]] \<and>
    (\<forall>i d. CollectionsUpdate i d \<in> set (calls_of (script P) s) \<longrightarrow>
       i = coll_id coll \<and> d = [(''createRule'', JStr ''@request.auth.id != ""'')]) \<and>
    (\<forall>k \<in> {''listRule'', ''viewRule'', ''updateRule'', ''deleteRule''}.
       map_of createRule_patch k = None)\<close>
proof -
  from authenticate_state [of P s] obtain cs
    where st: "snd (authenticate P s) = s\<lparr>trace := trace s @ cs\<rparr>"
      and admin: "\<forall>c \<in> set cs. \<exists>e p. c = AdminAuth e p"
    by blast
  have cs: "s1 = s\<lparr>trace := trace s @ cs\<rparr>"
    using st assms(2) by simp
  have ca: "calls_of (authenticate P) s = cs"
    by (simp add: calls_of_def st)
  have lit: \<open>[(''createRule'', JStr ''@request.auth.id != ""'')] = createRule_patch\<close>
    by (simp add: createRule_patch_def)
  have "snd (script P s) = snd (fixAuditLogsPermissions P s1)"
    by (simp add: script_run [OF assms(1,2)])
  also have "\<dots> = s1\<lparr>trace := trace s1 @ [CollectionsGetOne ''audit_logs'',
                            CollectionsUpdate (coll_id coll) createRule_patch]\<rparr>"
    by (rule fix_state(1) [OF assms(3)])
  finally have calls: "calls_of (script P) s =
      cs @ [CollectionsGetOne ''audit_logs'', CollectionsUpdate (coll_id coll) createRule_patch]"
    by (simp add: calls_of_def cs)
  have only: "i = coll_id coll \<and> d = createRule_patch"
    if "CollectionsUpdate i d \<in> set (calls_of (script P) s)" for i d
  proof -
    have "CollectionsUpdate i d \<notin> set cs"
      using admin by auto
    with that show ?thesis
      by (simp add: calls)
  qed
  have none: "\<forall>k \<in> {''listRule'', ''viewRule'', ''updateRule'', ''deleteRule''}.
       map_of createRule_patch k = None"
    by (simp add: createRule_patch_def)
  show ?thesis
    unfolding lit ca using calls only none by blast
qed

theorem fix_sets_only_createRule_witness:
  \<open>truthy (js_or (VITE_POCKETBASE_URL sample_script_env) (POCKETBASE_URL sample_script_env)) \<and>
   authenticate sample_script_env signed_out =
     (Some True, signed_out\<lparr>trace := [AdminAuth ''admin@example.org'' ''s3cret'']\<rparr>) \<and>
   calls_of (script sample_script_env) signed_out =
     [AdminAuth ''admin@example.org'' ''s3cret'',
      CollectionsGetOne ''audit_logs'',
      CollectionsUpdate ''col000000000001''
        [(''createRule'', JStr ''@request.auth.id != ""'')]]\<close>
proof -
  have h1: "truthy (js_or (VITE_POCKETBASE_URL sample_script_env) (POCKETBASE_URL sample_script_env))"
    by (simp add: js_or_def sample_script_env_def)
  have h2: "authenticate sample_script_env signed_out =
     (Some True, signed_out\<lparr>trace := [AdminAuth ''admin@example.org'' ''s3cret'']\<rparr>)"
    by (rule sample_authenticate) (simp_all add: sample_script_env_def)
  have h3: "collections_getOne sample_script_env
      (trace (signed_out\<lparr>trace := [AdminAuth ''admin@example.org'' ''s3cret'']\<rparr>)) ''audit_logs'' =
      Inr sample_collection"
    by (simp add: sample_script_env_def sample_collection_def)
  have c: "calls_of (authenticate sample_script_env) signed_out =
      [AdminAuth ''admin@example.org'' ''s3cret'']"
    unfolding calls_of_def h2 by (simp add: signed_out_def)
  have id: "coll_id sample_collection = ''col000000000001''"
    by (simp add: sample_collection_def)
  note run = conjunct1 [OF fix_sets_only_createRule [OF h1 h2 h3], unfolded c id]
  have \<open>calls_of (script sample_script_env) signed_out =
     [AdminAuth ''admin@example.org'' ''s3cret'',
      CollectionsGetOne ''audit_logs'',
      CollectionsUpdate ''col000000000001''
        [(''createRule'', JStr ''@request.auth.id != ""'')]]\<close>
    using run by simp
  with h1 h2 show ?thesis
    by (intro conjI)
qed

text \<open>
  Claim C8, as amended. Without a URL (both variables unset or empty) the script exits
  with status 1 and has issued no request. With a URL, when \<open>authenticate\<close> resolves
  to false the script exits with status 1 having sent nothing but authentication
  requests; when the update of the collection is refused, or the collection cannot be
  read, it exits with status 1 too. When both prompts are answered \<open>authenticate\<close>
  does resolve, and a service that rejects every credential then leads to status 1.
\<close>

theorem script_exits_nonzero:
  "(\<not> truthy (js_or (VITE_POCKETBASE_URL P) (POCKETBASE_URL P)) \<longrightarrow>
      script P s = (Exited 1, s)) \<and>
   (truthy (js_or (VITE_POCKETBASE_URL P) (POCKETBASE_URL P)) \<and>
    fst (authenticate P s) = Some False \<longrightarrow>
      fst (script P s) = Exited 1 \<and>
      (\<forall>c \<in> set (calls_of (script P) s). \<exists>e p. c = AdminAuth e p)) \<and>
   (\<forall>s1 coll err.
      truthy (js_or (VITE_POCKETBASE_URL P) (POCKETBASE_URL P)) \<and>
      authenticate P s = (Some True, s1) \<and>
      collections_getOne P (trace s1) ''audit_logs'' = Inr coll \<and>
      collections_update P (trace s1 @ [CollectionsGetOne ''audit_logs'']) (coll_id coll)
        createRule_patch = Inl err \<longrightarrow>
      fst (script P s) = Exited 1) \<and>
   (\<forall>s1 err.
      truthy (js_or (VITE_POCKETBASE_URL P) (POCKETBASE_URL P)) \<and>
      authenticate P s = (Some True, s1) \<and>
      collections_getOne P (trace s1) ''audit_logs'' = Inl err \<longrightarrow>
      fst (script P s) = Exited 1) \<and>
   (\<forall>e p. question P ''Email: '' = Some e \<and> question P ''Password: '' = Some p \<longrightarrow>
      fst (authenticate P s) \<noteq> None \<and>
      (truthy (js_or (VITE_POCKETBASE_URL P) (POCKETBASE_URL P)) \<and>
       (\<forall>h e' p'. \<exists>err. admins_authWithPassword P h e' p' = Inl err) \<longrightarrow>
         fst (script P s) = Exited 1))"
proof -
  have a: "script P s = (Exited 1, s)"
    if "\<not> truthy (js_or (VITE_POCKETBASE_URL P) (POCKETBASE_URL P))"
    using that by (simp add: script_def)
  have b: "fst (script P s) = Exited 1 \<and>
      (\<forall>c \<in> set (calls_of (script P) s). \<exists>e p. c = AdminAuth e p)"
    if u: "truthy (js_or (VITE_POCKETBASE_URL P) (POCKETBASE_URL P))"
      and f: "fst (authenticate P s) = Some False"
  proof -
    from authenticate_state [of P s] obtain cs
      where st: "snd (authenticate P s) = s\<lparr>trace := trace s @ cs\<rparr>"
        and admin: "\<forall>c \<in> set cs. \<exists>e p. c = AdminAuth e p"
      by blast
    have "calls_of (script P) s = cs"
      by (simp add: calls_of_def script_auth_failure [OF u f] st)
    then show ?thesis
      using admin by (simp add: script_auth_failure [OF u f])
  qed
  have c: "fst (script P s) = Exited 1"
    if "truthy (js_or (VITE_POCKETBASE_URL P) (POCKETBASE_URL P))"
      "authenticate P s = (Some True, s1)"
      "collections_getOne P (trace s1) ''audit_logs'' = Inr coll"
      "collections_update P (trace s1 @ [CollectionsGetOne ''audit_logs'']) (coll_id coll)
        createRule_patch = Inl err" for s1 coll err
    using that by (simp add: script_run [OF that(1,2)] fix_state(2) [OF that(3)])
  have d: "fst (script P s) = Exited 1"
    if "truthy (js_or (VITE_POCKETBASE_URL P) (POCKETBASE_URL P))"
      "authenticate P s = (Some True, s1)"
      "collections_getOne P (trace s1) ''audit_logs'' = Inl err" for s1 err
    using that by (simp add: script_run [OF that(1,2)] fix_getOne_failure [OF that(3)])
  have e1: "fst (authenticate P s) \<noteq> None"
    if "question P ''Email: '' = Some e" "question P ''Password: '' = Some p" for e p
    by (rule authenticate_answered(1) [OF that])
  have e2: "fst (script P s) = Exited 1"
    if "question P ''Email: '' = Some e" "question P ''Password: '' = Some p"
      "truthy (js_or (VITE_POCKETBASE_URL P) (POCKETBASE_URL P))"
      "\<forall>h e' p'. \<exists>err. admins_authWithPassword P h e' p' = Inl err" for e p
    using b [OF that(3) authenticate_answered(2) [OF that(1,2,4)]] by simp
  show ?thesis
    using a b c d e1 e2 by blast
qed

theorem script_exits_nonzero_witness:
  "script no_url_script_env signed_out = (Exited 1, signed_out) \<and>
   question rejected_script_env ''Email: '' = Some ''admin@example.org'' \<and>
   question rejected_script_env ''Password: '' = Some ''typed'' \<and>
   authenticate rejected_script_env signed_out =
     (Some False,
      signed_out\<lparr>trace := [AdminAuth ''admin@example.org'' ''wrong'',
                            AdminAuth ''admin@example.org'' ''typed'']\<rparr>) \<and>
   fst (script rejected_script_env signed_out) = Exited 1 \<and>
   authenticate refused_update_script_env signed_out =
     (Some True, signed_out\<lparr>trace := [AdminAuth ''admin@example.org'' ''s3cret'']\<rparr>) \<and>
   collections_update refused_update_script_env
       [AdminAuth ''admin@example.org'' ''s3cret'', CollectionsGetOne ''audit_logs'']
       ''col000000000001'' createRule_patch =
     Inl (ClientResponseError ''Failed to update collection.'') \<and>
   fst (script refused_update_script_env signed_out) = Exited 1"
proof -
  have n: "\<not> truthy (js_or (VITE_POCKETBASE_URL no_url_script_env) (POCKETBASE_URL no_url_script_env))"
    by (simp add: js_or_def no_url_script_env_def sample_script_env_def)
  have q: "question rejected_script_env ''Email: '' = Some ''admin@example.org''"
    "question rejected_script_env ''Password: '' = Some ''typed''"
    by (simp_all add: rejected_script_env_def sample_script_env_def)
  have ru: "truthy (js_or (VITE_POCKETBASE_URL rejected_script_env)
      (POCKETBASE_URL rejected_script_env))"
    by (simp add: js_or_def rejected_script_env_def sample_script_env_def)
  have ra: "authenticate rejected_script_env signed_out =
     (Some False,
      signed_out\<lparr>trace := [AdminAuth ''admin@example.org'' ''wrong'',
                            AdminAuth ''admin@example.org'' ''typed'']\<rparr>)"
    by (simp add: authenticate_def prompt_authenticate_def request_def
        rejected_script_env_def sample_script_env_def signed_out_def)
  have rf: "fst (authenticate rejected_script_env signed_out) = Some False"
    by (simp add: ra)
  have r: "fst (script rejected_script_env signed_out) = Exited 1"
    using ru rf script_exits_nonzero [of rejected_script_env signed_out] by blast
  have u: "truthy (js_or (VITE_POCKETBASE_URL refused_update_script_env)
      (POCKETBASE_URL refused_update_script_env))"
    by (simp add: js_or_def refused_update_script_env_def sample_script_env_def)
  have h2: "authenticate refused_update_script_env signed_out =
     (Some True, signed_out\<lparr>trace := [AdminAuth ''admin@example.org'' ''s3cret'']\<rparr>)"
    by (rule sample_authenticate)
      (simp_all add: refused_update_script_env_def sample_script_env_def)
  have h3: "collections_getOne refused_update_script_env
      (trace (signed_out\<lparr>trace := [AdminAuth ''admin@example.org'' ''s3cret'']\<rparr>)) ''audit_logs'' =
      Inr sample_collection"
    by (simp add: refused_update_script_env_def sample_script_env_def)
  have h4: "collections_update refused_update_script_env
       (trace (signed_out\<lparr>trace := [AdminAuth ''admin@example.org'' ''s3cret'']\<rparr>) @
          [CollectionsGetOne ''audit_logs''])
       (coll_id sample_collection) createRule_patch =
     Inl (ClientResponseError ''Failed to update collection.'')"
    by (simp add: refused_update_script_env_def)
  have f: "fst (script refused_update_script_env signed_out) = Exited 1"
    using u h2 h3 h4 script_exits_nonzero [of refused_update_script_env signed_out] by blast
  have nu: "script no_url_script_env signed_out = (Exited 1, signed_out)"
    using n script_exits_nonzero [of no_url_script_env signed_out] by blast
  have h4': "collections_update refused_update_script_env
       [AdminAuth ''admin@example.org'' ''s3cret'', CollectionsGetOne ''audit_logs'']
       ''col000000000001'' createRule_patch =
     Inl (ClientResponseError ''Failed to update collection.'')"
    by (simp add: refused_update_script_env_def)
  show ?thesis
    using nu q ra r h2 h4' f by (intro conjI)
qed

text \<open>
  The claim as first stated fails when the terminal input has ended: the environment
  credentials are rejected, the prompt that follows is never answered, and the run ends
  with status 0 without reaching \<open>process.exit(1)\<close>.
\<close>

theorem script_unanswered_prompt_counterexample:
  "admins_authWithPassword unanswered_script_env [] ''admin@example.org'' ''wrong'' =
     Inl (ClientResponseError ''Failed to authenticate.'') \<and>
   script unanswered_script_env signed_out =
     (Unsettled, signed_out\<lparr>trace := [AdminAuth ''admin@example.org'' ''wrong'']\<rparr>) \<and>
   exit_status (fst (script unanswered_script_env signed_out)) = 0"
  by (simp add: script_def main_def authenticate_def prompt_authenticate_def request_def
      js_or_def unanswered_script_env_def rejected_script_env_def sample_script_env_def
      signed_out_def)

end
